theory Spec2Isabelle
  imports Complex_Main "HOL-Library.Word" "HOL-Library.Monad_Syntax"
begin

section \<open>Values exchanged with the host scene graph\<close>

text \<open>
  Tokens and scene paths are strings; the empty path is the empty string. Single
  precision floats are kept abstract: \<open>'f\<close> is any type with \<open>0\<close>, \<open>1\<close>, \<open>+\<close>, \<open>*\<close> and
  \<open>/\<close>, and no law of arithmetic is used anywhere, so every result holds for IEEE
  floats as well as for the numbers the examples are run on.
\<close>

type_synonym TfToken = string
type_synonym SdfPath = string

datatype 'f GfVec2f = GfVec2f 'f 'f
datatype 'f GfVec3f = GfVec3f 'f 'f 'f
datatype 'f GfVec4f = GfVec4f 'f 'f 'f 'f

text \<open>A \<open>GfMatrix4f\<close> is four rows; \<open>m[i][j]\<close> is component \<open>j\<close> of row \<open>i\<close>.\<close>

datatype 'f GfMatrix4f = GfMatrix4f "'f GfVec4f" "'f GfVec4f" "'f GfVec4f" "'f GfVec4f"

type_synonym GfVec3i = "int \<times> int \<times> int"

text \<open>\<open>GfMatrix4f(s)\<close>: the diagonal matrix of the host's math library.\<close>

definition GfMatrix4f_diagonal :: "'f::zero \<Rightarrow> 'f GfMatrix4f" where
  "GfMatrix4f_diagonal s =
     GfMatrix4f (GfVec4f s 0 0 0) (GfVec4f 0 s 0 0) (GfVec4f 0 0 s 0) (GfVec4f 0 0 0 s)"

text \<open>
  \<open>operator*\<close> of \<open>GfMatrix4f\<close> (host math library): the row-by-column product,
  each entry summed from left to right.
\<close>

fun GfVec4f_times :: "'f::{plus,times} GfVec4f \<Rightarrow> 'f GfMatrix4f \<Rightarrow> 'f GfVec4f" where
  "GfVec4f_times (GfVec4f a b c d)
     (GfMatrix4f (GfVec4f m00 m01 m02 m03) (GfVec4f m10 m11 m12 m13)
                 (GfVec4f m20 m21 m22 m23) (GfVec4f m30 m31 m32 m33)) =
     GfVec4f (a * m00 + b * m10 + c * m20 + d * m30)
             (a * m01 + b * m11 + c * m21 + d * m31)
             (a * m02 + b * m12 + c * m22 + d * m32)
             (a * m03 + b * m13 + c * m23 + d * m33)"

fun GfMatrix4f_times :: "'f::{plus,times} GfMatrix4f \<Rightarrow> 'f GfMatrix4f \<Rightarrow> 'f GfMatrix4f" where
  "GfMatrix4f_times (GfMatrix4f r0 r1 r2 r3) m =
     GfMatrix4f (GfVec4f_times r0 m) (GfVec4f_times r1 m) (GfVec4f_times r2 m) (GfVec4f_times r3 m)"

text \<open>
  A boxed host value. \<open>Get<T>()\<close> on a value that does not hold a \<open>T\<close> yields the
  default \<open>T\<close> (an empty array, \<open>0\<close>, the empty token).
\<close>

datatype 'f VtValue =
    VtEmpty
  | VtVec3fArray "'f GfVec3f list"
  | VtVec2fArray "'f GfVec2f list"
  | VtSdfAssetPath string
  | VtGfVec3f "'f GfVec3f"
  | VtFloat 'f
  | VtTfToken TfToken
  | VtOther string

fun Holding_VtVec3fArray :: "'f VtValue \<Rightarrow> 'f GfVec3f list option" where
  "Holding_VtVec3fArray (VtVec3fArray xs) = Some xs"
| "Holding_VtVec3fArray _ = None"

fun Holding_VtVec2fArray :: "'f VtValue \<Rightarrow> 'f GfVec2f list option" where
  "Holding_VtVec2fArray (VtVec2fArray xs) = Some xs"
| "Holding_VtVec2fArray _ = None"

definition Get_array :: "('f VtValue \<Rightarrow> 'a list option) \<Rightarrow> 'f VtValue \<Rightarrow> 'a list" where
  "Get_array holding v = (case holding v of Some xs \<Rightarrow> xs | None \<Rightarrow> [])"

datatype HdInterpolation =
    HdInterpolationConstant
  | HdInterpolationUniform
  | HdInterpolationVarying
  | HdInterpolationVertex
  | HdInterpolationFaceVarying
  | HdInterpolationInstance

text \<open>The interpolation modes in the order of \<open>for (i = 0; i < HdInterpolationCount; i++)\<close>.\<close>

definition all_interpolations :: "HdInterpolation list" where
  "all_interpolations =
     [HdInterpolationConstant, HdInterpolationUniform, HdInterpolationVarying,
      HdInterpolationVertex, HdInterpolationFaceVarying, HdInterpolationInstance]"

section \<open>Dirty bits\<close>

text \<open>
  \<open>HdDirtyBits\<close> is a bit mask; it is modelled as the set of the bits that are set, so
  \<open>bits & F\<close> is membership of \<open>F\<close> and \<open>bits & ~F\<close> removes \<open>F\<close>. \<open>OtherBit n\<close> stands
  for every bit the sync code never names. \<open>IsClean\<close> of the change tracker ignores the
  \<open>Varying\<close> bit.
\<close>

datatype HdDirtyBit =
    DirtyPoints
  | DirtyTransform
  | DirtyInstancer
  | DirtyVisibility
  | DirtyMaterialId
  | Varying
  | OtherBit nat

type_synonym HdDirtyBits = "HdDirtyBit set"

definition IsClean :: "HdDirtyBits \<Rightarrow> bool" where
  "IsClean bits = (bits - {Varying} = {})"

text \<open>The dirty bits of a material prim, in the same way.\<close>

datatype HdMaterialDirtyBit =
    DirtyParams
  | MaterialVarying
  | OtherMaterialBit nat

definition IsCleanMaterial :: "HdMaterialDirtyBit set \<Rightarrow> bool" where
  "IsCleanMaterial bits = (bits - {MaterialVarying} = {})"

text \<open>Lines 29-35 of mesh.cpp.\<close>

definition GetInitialDirtyBitsMask :: "HdDirtyBits" where
  "GetInitialDirtyBitsMask =
     {DirtyPoints, DirtyTransform, DirtyInstancer, DirtyVisibility, DirtyMaterialId}"

section \<open>The renderer and the diagnostic channel\<close>

type_synonym MeshHandle = nat
type_synonym ImageHandle = nat
type_synonym MaterialHandle = nat
type_synonym InstanceHandle = nat

datatype 'f F32x2 = F32x2 'f 'f
datatype 'f F32x3 = F32x3 'f 'f 'f
datatype 'f F32x4 = F32x4 'f 'f 'f 'f
datatype 'f Mat3x4 = Mat3x4 "'f F32x4" "'f F32x4" "'f F32x4"

datatype TextureFormat = f16x4 | u8x1 | u8x2 | u8x4 | u8x4_srgb

text \<open>
  Every entry point of the renderer that the sync code calls, with its arguments (the
  renderer pointer apart). Creation calls return a handle.
\<close>

datatype 'f renderer_call =
    CreateMesh "'f GfVec3f list" "'f GfVec3f list" "'f GfVec2f list" nat
  | CreateInstance "'f Mat3x4" MeshHandle MaterialHandle bool
  | DestroyInstance InstanceHandle
  | SetInstanceTransform InstanceHandle "'f Mat3x4"
  | SetInstanceVisibility InstanceHandle bool
  | CreateSolidTexture1 'f string
  | CreateSolidTexture2 "'f F32x2" string
  | CreateSolidTexture3 "'f F32x3" string
  | CreateRawTexture "8 word list" nat nat TextureFormat string
  | SetMaterialColor MaterialHandle ImageHandle
  | SetMaterialEmissive MaterialHandle ImageHandle
  | SetMaterialNormal MaterialHandle ImageHandle
  | SetMaterialRoughness MaterialHandle ImageHandle
  | SetMaterialMetalness MaterialHandle ImageHandle
  | SetMaterialIOR MaterialHandle 'f

text \<open>The reports made with \<open>TF_CODING_ERROR\<close>, one constructor per call site.\<close>

datatype diagnostic =
    EmptyMesh
  | UnknownPrimvarInterpolation TfToken HdInterpolation
  | MeshDirtyBitsIgnored HdDirtyBits
  | UnknownFormat
  | UnknownValueType
  | CouldNotParseTexture string
  | UnknownResourceType
  | NoSurfaceConnection
  | UnknownNode TfToken
  | UnknownConnection TfToken string
  | MaterialDirtyBitsIgnored "HdMaterialDirtyBit set"

text \<open>
  What lies outside a sync record: the renderer calls issued so far (oldest first), the
  handle the renderer answers a creation call with (any function of the calls made up to
  and including that one), and the coding errors reported so far.
\<close>

record 'f world =
  calls :: "'f renderer_call list"
  handle_of :: "'f renderer_call list \<Rightarrow> nat"
  codingErrors :: "diagnostic list"

definition issue :: "'f renderer_call \<Rightarrow> 'f world \<Rightarrow> 'f world" where
  "issue c w = w\<lparr>calls := calls w @ [c]\<rparr>"

definition create :: "'f renderer_call \<Rightarrow> 'f world \<Rightarrow> nat \<times> 'f world" where
  "create c w = (handle_of w (calls w @ [c]), issue c w)"

definition TF_CODING_ERROR :: "diagnostic \<Rightarrow> 'f world \<Rightarrow> 'f world" where
  "TF_CODING_ERROR d w = w\<lparr>codingErrors := codingErrors w @ [d]\<rparr>"

section \<open>Mesh sync (mesh.cpp)\<close>

text \<open>
  The answers of the scene delegate, the render index and the \<open>HdRprim\<close> base class
  during one call of \<open>HdMoonshineMesh::Sync\<close>. \<open>GetSprim\<close> gives the handle of the
  material prim at a path, or \<open>None\<close> for the null pointer; \<open>GetInstancer\<close> gives the
  transforms \<open>ComputeInstanceTransforms\<close> returns, or \<open>None\<close> for the null pointer;
  \<open>GetInstancerId\<close> is the instancer id the base class holds when line 212 reads it.
\<close>

record 'f mesh_host =
  ComputeTriangleIndices :: "GfVec3i list"
  GetExtComputationPrimvarDescriptors :: "HdInterpolation \<Rightarrow> TfToken list"
  GetComputedPrimvarValues :: "HdInterpolation \<Rightarrow> (TfToken \<times> 'f VtValue) list"
  GetPrimvarDescriptors :: "HdInterpolation \<Rightarrow> TfToken list"
  Get :: "TfToken \<Rightarrow> 'f VtValue"
  ComputeTriangulatedFaceVaryingPrimvar :: "TfToken \<Rightarrow> 'f VtValue"
  GetVisible :: bool
  GetMaterialId :: SdfPath
  GetSprim :: "SdfPath \<Rightarrow> MaterialHandle option"
  GetTransform :: "'f GfMatrix4f"
  GetInstancerId :: SdfPath
  GetInstancer :: "SdfPath \<Rightarrow> 'f GfMatrix4f list option"

record HdMoonshineRenderParam =
  black3 :: ImageHandle
  black1 :: ImageHandle
  upNormal :: ImageHandle
  grey3 :: ImageHandle
  white1 :: ImageHandle
  defaultMaterial :: MaterialHandle

text \<open>
  The fields of \<open>HdMoonshineMesh\<close> (\<open>_mesh\<close>, \<open>_material\<close>, \<open>_transform\<close>,
  \<open>_instancesTransforms\<close>, \<open>_instances\<close>) and the visibility the base class keeps
  (\<open>IsVisible()\<close>).
\<close>

record 'f HdMoonshineMesh =
  mesh :: MeshHandle
  material :: MaterialHandle
  transform :: "'f GfMatrix4f"
  instancesTransforms :: "'f GfMatrix4f list"
  instances :: "InstanceHandle list"
  visible :: bool

text \<open>
  Results are options: \<open>None\<close> is undefined behaviour of the C++ (an index out of range,
  a null pointer or an end iterator dereferenced).
\<close>

definition at_index :: "'a list \<Rightarrow> int \<Rightarrow> 'a option" where
  "at_index xs i = (if 0 \<le> i \<and> nat i < length xs then Some (xs ! nat i) else None)"

text \<open>Lines 43-59.\<close>

definition FindPrimvarInterpolation :: "'f mesh_host \<Rightarrow> TfToken \<Rightarrow> HdInterpolation option" where
  "FindPrimvarInterpolation host name =
     find (\<lambda>interpolation. name \<in> set (GetPrimvarDescriptors host interpolation)) all_interpolations"

text \<open>The gather loop of lines 90-94 and 146-150: three entries per triangle.\<close>

fun unindexed :: "'a list \<Rightarrow> GfVec3i list \<Rightarrow> 'a list option" where
  "unindexed indexed [] = Some []"
| "unindexed indexed ((i0, i1, i2) # indices) =
     do {
       a \<leftarrow> at_index indexed i0;
       b \<leftarrow> at_index indexed i1;
       c \<leftarrow> at_index indexed i2;
       rest \<leftarrow> unindexed indexed indices;
       Some (a # b # c # rest)
     }"

text \<open>Lines 72-101, for the array type that \<open>holding\<close> recognises.\<close>

definition ComputePrimvar ::
  "('f VtValue \<Rightarrow> 'a list option) \<Rightarrow> 'f mesh_host \<Rightarrow> GfVec3i list \<Rightarrow> TfToken \<Rightarrow> 'f world
     \<Rightarrow> ('a list \<times> 'f world) option" where
  "ComputePrimvar holding host indices primvarName w =
     (case holding (Get host primvarName) of
        None \<Rightarrow> Some ([], w)
      | Some indexedPrimvar \<Rightarrow>
          (case FindPrimvarInterpolation host primvarName of
             None \<Rightarrow> Some ([], w)
           | Some interpolation \<Rightarrow>
               if interpolation = HdInterpolationFaceVarying then
                 Some (Get_array holding (ComputeTriangulatedFaceVaryingPrimvar host primvarName), w)
               else if interpolation = HdInterpolationVertex then
                 do { primvar \<leftarrow> unindexed indexedPrimvar indices; Some (primvar, w) }
               else
                 Some ([], TF_CODING_ERROR (UnknownPrimvarInterpolation primvarName interpolation) w)))"

text \<open>Lines 121-132: the last computed primvar named \<open>points\<close> wins.\<close>

fun fancy_points_of ::
  "(TfToken \<times> 'f VtValue) list \<Rightarrow> TfToken list \<Rightarrow> 'f GfVec3f list \<Rightarrow> 'f GfVec3f list option" where
  "fancy_points_of valueStore [] indexedPoints = Some indexedPoints"
| "fancy_points_of valueStore (pv # compPrimvars) indexedPoints =
     (if pv = ''points'' then
        (case map_of valueStore pv of
           None \<Rightarrow> None
         | Some v \<Rightarrow> fancy_points_of valueStore compPrimvars (Get_array Holding_VtVec3fArray v))
      else fancy_points_of valueStore compPrimvars indexedPoints)"

fun fancy_points ::
  "'f mesh_host \<Rightarrow> HdInterpolation list \<Rightarrow> 'f GfVec3f list \<Rightarrow> 'f GfVec3f list option" where
  "fancy_points host [] indexedPoints = Some indexedPoints"
| "fancy_points host (interp # rest) indexedPoints =
     do {
       found \<leftarrow> fancy_points_of (GetComputedPrimvarValues host interp)
                  (GetExtComputationPrimvarDescriptors host interp) indexedPoints;
       fancy_points host rest found
     }"

text \<open>Lines 119-137.\<close>

definition indexedPoints_of :: "'f mesh_host \<Rightarrow> 'f GfVec3f list option" where
  "indexedPoints_of host =
     do {
       fancy \<leftarrow> fancy_points host all_interpolations [];
       Some (if length fancy = 0 then Get_array Holding_VtVec3fArray (Get host ''points'') else fancy)
     }"

text \<open>Lines 152-172.\<close>

definition texcoordName_of :: "'f mesh_host \<Rightarrow> TfToken" where
  "texcoordName_of host =
     (case find (\<lambda>name. FindPrimvarInterpolation host name \<noteq> None) [''st'', ''st0''] of
        None \<Rightarrow> []
      | Some name \<Rightarrow> name)"

definition texcoords_of ::
  "'f mesh_host \<Rightarrow> GfVec3i list \<Rightarrow> 'f world \<Rightarrow> ('f GfVec2f list \<times> 'f world) option" where
  "texcoords_of host indices w =
     (if texcoordName_of host \<noteq> [] then
        ComputePrimvar Holding_VtVec2fArray host indices (texcoordName_of host) w
      else Some ([], w))"

text \<open>Lines 245-249.\<close>

fun toMat3x4 :: "'f GfMatrix4f \<Rightarrow> 'f Mat3x4" where
  "toMat3x4 (GfMatrix4f (GfVec4f m00 m01 m02 m03) (GfVec4f m10 m11 m12 m13)
                        (GfVec4f m20 m21 m22 m23) (GfVec4f m30 m31 m32 m33)) =
     Mat3x4 (F32x4 m00 m10 m20 m30) (F32x4 m01 m11 m21 m31) (F32x4 m02 m12 m22 m32)"

text \<open>Lines 238-240 and 278-280.\<close>

fun destroyInstances :: "InstanceHandle list \<Rightarrow> 'f world \<Rightarrow> 'f world" where
  "destroyInstances [] w = w"
| "destroyInstances (instance # rest) w = destroyInstances rest (issue (DestroyInstance instance) w)"

text \<open>Lines 243-251: the handles pushed onto the cleared \<open>_instances\<close>.\<close>

fun createInstances ::
  "'f::{plus,times} GfMatrix4f \<Rightarrow> MeshHandle \<Rightarrow> MaterialHandle \<Rightarrow> bool \<Rightarrow> 'f GfMatrix4f list
     \<Rightarrow> 'f world \<Rightarrow> InstanceHandle list \<times> 'f world" where
  "createInstances t me ma vis [] w = ([], w)"
| "createInstances t me ma vis (it # its) w =
     (let (h, w1) = create (CreateInstance (toMat3x4 (GfMatrix4f_times t it)) me ma vis) w;
          (hs, w2) = createInstances t me ma vis its w1
      in (h # hs, w2))"

text \<open>
  Lines 254-262: \<open>i\<close> runs over \<open>_instancesTransforms\<close> and indexes \<open>_instances\<close> too, so
  the two lists are walked together; running out of handles is an index out of range.
\<close>

fun setInstanceTransforms ::
  "'f::{plus,times} GfMatrix4f \<Rightarrow> 'f GfMatrix4f list \<Rightarrow> InstanceHandle list \<Rightarrow> 'f world
     \<Rightarrow> 'f world option" where
  "setInstanceTransforms t [] hs w = Some w"
| "setInstanceTransforms t (it # its) [] w = None"
| "setInstanceTransforms t (it # its) (h # hs) w =
     setInstanceTransforms t its hs (issue (SetInstanceTransform h (toMat3x4 (GfMatrix4f_times t it))) w)"

text \<open>Lines 266-268.\<close>

fun setInstanceVisibilities :: "bool \<Rightarrow> InstanceHandle list \<Rightarrow> 'f world \<Rightarrow> 'f world" where
  "setInstanceVisibilities vis [] w = w"
| "setInstanceVisibilities vis (instance # rest) w =
     setInstanceVisibilities vis rest (issue (SetInstanceVisibility instance vis) w)"

text \<open>
  Lines 212-233. The instancer id is read on line 212; the two calls of lines 213-214
  update the base class and the instancer and touch neither the record nor the dirty
  bits. The flag \<open>instancer_count_changed\<close> that line 236 reads is the one
  declared on line 216; line 231 declares a second variable of the same name inside the
  block, so the outer one keeps the value \<open>false\<close>. The function returns the outer flag.
\<close>

definition syncInstancer ::
  "'f::{zero,one} mesh_host \<Rightarrow> 'f HdMoonshineMesh \<Rightarrow> HdDirtyBits
     \<Rightarrow> (bool \<times> 'f HdMoonshineMesh \<times> HdDirtyBits) option" where
  "syncInstancer host r dirtyBits =
     (let instancer_count_changed = False in
      if DirtyInstancer \<in> dirtyBits then
        do {
          new_transforms \<leftarrow>
            (if GetInstancerId host = [] then Some [GfMatrix4f_diagonal 1]
             else GetInstancer host (GetInstancerId host));
          let old_len = length (instancesTransforms r);
              new_len = length new_transforms;
              inner_instancer_count_changed = (old_len \<noteq> new_len)
          in Some (instancer_count_changed, r\<lparr>instancesTransforms := new_transforms\<rparr>,
                   dirtyBits - {DirtyInstancer})
        }
      else Some (instancer_count_changed, r, dirtyBits))"

text \<open>Lines 235-270.\<close>

definition syncInstances ::
  "bool \<Rightarrow> bool \<Rightarrow> bool \<Rightarrow> bool \<Rightarrow> bool \<Rightarrow> bool \<Rightarrow> 'f::{plus,times} HdMoonshineMesh \<Rightarrow> 'f world
     \<Rightarrow> ('f HdMoonshineMesh \<times> 'f world) option" where
  "syncInstances mesh_changed instancer_count_changed material_changed transform_changed
       old_visibility new_visibility r w =
     (let need_to_recreate = (mesh_changed \<or> instancer_count_changed \<or> material_changed) in
      if need_to_recreate then
        (let w1 = destroyInstances (instances r) w;
             (hs, w2) = createInstances (transform r) (mesh r) (material r) new_visibility
                          (instancesTransforms r) w1
         in Some (r\<lparr>instances := hs\<rparr>, w2))
      else
        do {
          w1 \<leftarrow> (if transform_changed
                 then setInstanceTransforms (transform r) (instancesTransforms r) (instances r) w
                 else Some w);
          Some (r, if old_visibility \<noteq> new_visibility
                   then setInstanceVisibilities new_visibility (instances r) w1 else w1)
        })"

text \<open>Lines 182-275: everything after the geometry block.\<close>

definition Sync_after_points ::
  "'f::{zero,one,plus,times} mesh_host \<Rightarrow> HdMoonshineRenderParam \<Rightarrow> bool \<Rightarrow> 'f HdMoonshineMesh
     \<Rightarrow> HdDirtyBits \<Rightarrow> 'f world \<Rightarrow> ('f HdMoonshineMesh \<times> HdDirtyBits \<times> 'f world) option" where
  "Sync_after_points host renderParam mesh_changed r0 bits0 w =
     (let old_visibility = visible r0;
          (r1, bits1) =
            (if DirtyVisibility \<in> bits0
             then (r0\<lparr>visible := GetVisible host\<rparr>, bits0 - {DirtyVisibility})
             else (r0, bits0));
          new_visibility = visible r1;
          material_changed = (DirtyMaterialId \<in> bits1);
          (r2, bits2) =
            (if DirtyMaterialId \<in> bits1 then
               ((if GetMaterialId host = [] then r1\<lparr>material := defaultMaterial renderParam\<rparr>
                 else (case GetSprim host (GetMaterialId host) of
                         Some handle \<Rightarrow> r1\<lparr>material := handle\<rparr>
                       | None \<Rightarrow> r1)),
                bits1 - {DirtyMaterialId})
             else (r1, bits1));
          transform_changed = (DirtyTransform \<in> bits2 \<or> DirtyInstancer \<in> bits2);
          (r3, bits3) =
            (if DirtyTransform \<in> bits2
             then (r2\<lparr>transform := GetTransform host\<rparr>, bits2 - {DirtyTransform})
             else (r2, bits2))
      in do {
           (instancer_count_changed, r4, bits4) \<leftarrow> syncInstancer host r3 bits3;
           (r5, w5) \<leftarrow> syncInstances mesh_changed instancer_count_changed material_changed
                         transform_changed old_visibility new_visibility r4 w;
           Some (r5, bits4,
                 if \<not> IsClean bits4 then TF_CODING_ERROR (MeshDirtyBitsIgnored bits4) w5 else w5)
         })"

text \<open>Lines 103-275: \<open>HdMoonshineMesh::Sync\<close>.\<close>

definition Sync ::
  "'f::{zero,one,plus,times} mesh_host \<Rightarrow> HdMoonshineRenderParam \<Rightarrow> 'f HdMoonshineMesh
     \<Rightarrow> HdDirtyBits \<Rightarrow> 'f world \<Rightarrow> ('f HdMoonshineMesh \<times> HdDirtyBits \<times> 'f world) option" where
  "Sync host renderParam r dirtyBits w =
     (let mesh_changed = (DirtyPoints \<in> dirtyBits) in
      if DirtyPoints \<in> dirtyBits then
        do {
          indexedPoints \<leftarrow> indexedPoints_of host;
          if length indexedPoints = 0 then Some (r, dirtyBits, TF_CODING_ERROR EmptyMesh w)
          else
            do {
              points \<leftarrow> unindexed indexedPoints (ComputeTriangleIndices host);
              (texcoords, w1) \<leftarrow> texcoords_of host (ComputeTriangleIndices host) w;
              (normals, w2) \<leftarrow> ComputePrimvar Holding_VtVec3fArray host (ComputeTriangleIndices host)
                                 ''normals'' w1;
              let (h, w3) = create (CreateMesh points normals texcoords (length points)) w2
              in Sync_after_points host renderParam mesh_changed (r\<lparr>mesh := h\<rparr>)
                   (dirtyBits - {DirtyPoints}) w3
            }
        }
      else Sync_after_points host renderParam mesh_changed r dirtyBits w)"

section \<open>Material sync (material.cpp)\<close>

text \<open>
  \<open>HioFormat\<close>: the formats the code names, and \<open>HioFormatOther\<close> for every other
  value of the enumeration. A \<open>HioType\<close> is kept as its number.
\<close>

datatype HioFormat =
    HioFormatUNorm8
  | HioFormatUNorm8Vec2
  | HioFormatUNorm8Vec3
  | HioFormatUNorm8Vec4
  | HioFormatUNorm8Vec3srgb
  | HioFormatUNorm8Vec4srgb
  | HioFormatFloat16Vec3
  | HioFormatOther nat

type_synonym HioType = nat

text \<open>The format helpers of the host's image library, taken as they are.\<close>

record Hio =
  HioGetFormat :: "nat \<Rightarrow> HioType \<Rightarrow> bool \<Rightarrow> HioFormat"
  HioGetHioType :: "HioFormat \<Rightarrow> HioType"
  HioGetComponentCount :: "HioFormat \<Rightarrow> nat"
  HioGetDataSizeOfType :: "HioFormat \<Rightarrow> nat"
  HioGetDataSizeOfFormat :: "HioFormat \<Rightarrow> nat"

text \<open>
  An opened image: its format and size, and the bytes \<open>Read\<close> stores into the buffer
  (\<open>width * height * bytes per pixel\<close> of them, rows flipped).
\<close>

record HioImage =
  GetFormat :: HioFormat
  GetWidth :: nat
  GetHeight :: nat
  GetBytesPerPixel :: nat
  Read :: "8 word list"

text \<open>Lines 48-66.\<close>

fun usdFormatToMsneFormat :: "HioFormat \<Rightarrow> TextureFormat option" where
  "usdFormatToMsneFormat HioFormatFloat16Vec3 = Some f16x4"
| "usdFormatToMsneFormat HioFormatUNorm8 = Some u8x1"
| "usdFormatToMsneFormat HioFormatUNorm8Vec2 = Some u8x2"
| "usdFormatToMsneFormat HioFormatUNorm8Vec4 = Some u8x4"
| "usdFormatToMsneFormat HioFormatUNorm8Vec3 = Some u8x4"
| "usdFormatToMsneFormat HioFormatUNorm8Vec4srgb = Some u8x4_srgb"
| "usdFormatToMsneFormat HioFormatUNorm8Vec3srgb = Some u8x4_srgb"
| "usdFormatToMsneFormat (HioFormatOther n) = None"

text \<open>
  \<open>data[dst] = data[src]\<close> on a buffer of known length; an index outside the buffer is
  undefined behaviour.
\<close>

definition assign :: "8 word list \<Rightarrow> nat \<Rightarrow> nat \<Rightarrow> 8 word list option" where
  "assign data dst src =
     (if dst < length data \<and> src < length data then Some (data[dst := data ! src]) else None)"

text \<open>A \<open>for\<close> loop over the given counter values, stopping at undefined behaviour.\<close>

fun for_each :: "nat list \<Rightarrow> (nat \<Rightarrow> 's \<Rightarrow> 's option) \<Rightarrow> 's \<Rightarrow> 's option" where
  "for_each [] body s = Some s"
| "for_each (i # rest) body s = (case body i s of None \<Rightarrow> None | Some s' \<Rightarrow> for_each rest body s')"

text \<open>
  Lines 68-74. \<open>size_t\<close> has 64 bits. The loop header \<open>for (i = pixel_count - 1; i-- > 0;)\<close>
  tests \<open>i > 0\<close>, then decrements \<open>i\<close>, then runs the body: \<open>rgbToRgba_from (Suc i)\<close>
  runs the body with \<open>i\<close> and goes on from \<open>i\<close>.
\<close>

primrec rgbToRgba_from :: "nat \<Rightarrow> nat \<Rightarrow> nat \<Rightarrow> 8 word list \<Rightarrow> 8 word list option" where
  "rgbToRgba_from 0 src_bytes_per_pixel dst_bytes_per_pixel data = Some data"
| "rgbToRgba_from (Suc i) src_bytes_per_pixel dst_bytes_per_pixel data =
     (case for_each [0..<src_bytes_per_pixel]
             (\<lambda>j d. assign d ((dst_bytes_per_pixel * i + j) mod 2 ^ 64)
                              ((src_bytes_per_pixel * i + j) mod 2 ^ 64)) data of
        None \<Rightarrow> None
      | Some d \<Rightarrow> rgbToRgba_from i src_bytes_per_pixel dst_bytes_per_pixel d)"

definition rgbToRgba :: "8 word list \<Rightarrow> nat \<Rightarrow> nat \<Rightarrow> nat \<Rightarrow> 8 word list option" where
  "rgbToRgba data pixel_count src_bytes_per_pixel dst_bytes_per_pixel =
     rgbToRgba_from ((pixel_count + 2 ^ 64 - 1) mod 2 ^ 64) src_bytes_per_pixel dst_bytes_per_pixel data"

text \<open>Lines 86-91: the size of the buffer \<open>makeTexture\<close> allocates.\<close>

definition imageSize_of :: "HioImage \<Rightarrow> nat" where
  "imageSize_of img =
     (let imageSize = GetWidth img * GetHeight img * GetBytesPerPixel img
      in if imageSize mod 3 = 0 then (imageSize div 3) * 4 else imageSize)"

text \<open>Lines 92-94: the zero-filled buffer after the image was read into it.\<close>

definition read_image :: "HioImage \<Rightarrow> 8 word list" where
  "read_image img = take (imageSize_of img) (Read img @ replicate (imageSize_of img) 0)"

text \<open>Lines 96-118: the buffer and the format after the conversions.\<close>

definition convert_image ::
  "Hio \<Rightarrow> HioImage \<Rightarrow> string \<Rightarrow> TfToken \<Rightarrow> (8 word list \<times> HioFormat) option" where
  "convert_image hio img swizzle dst =
     (let format = GetFormat img;
          pixel_count = GetWidth img * GetHeight img;
          data = read_image img
      in if swizzle = ''r'' \<or> swizzle = ''g'' \<or> swizzle = ''b'' then
           (let src_start = (if swizzle = ''r'' then 0 else (if swizzle = ''g'' then 1 else 2))
                              * HioGetDataSizeOfType hio format;
                src_end = src_start + HioGetDataSizeOfType hio format
            in do {
                 d \<leftarrow> for_each [0..<pixel_count] (\<lambda>i. for_each [src_start..<src_end]
                        (\<lambda>j d. assign d (i * HioGetDataSizeOfType hio format + j - src_start)
                                         (i * GetBytesPerPixel img + j))) data;
                 Some (d, HioGetFormat hio 1 (HioGetHioType hio format) False)
               })
         else if HioGetComponentCount hio format = 3 then
           (if dst = ''normal'' then
              do {
                d \<leftarrow> for_each [0..<pixel_count]
                       (\<lambda>i. for_each [0..<(HioGetDataSizeOfFormat hio format div 3) * 2]
                         (\<lambda>j d. assign d (i * HioGetDataSizeOfType hio format * 2 + j)
                                          (i * GetBytesPerPixel img + j))) data;
                Some (d, HioGetFormat hio 2 (HioGetHioType hio format) False)
              }
            else
              do {
                d \<leftarrow> rgbToRgba data pixel_count (GetBytesPerPixel img)
                       ((GetBytesPerPixel img div 3) * 4);
                Some (d, format)
              })
         else Some (data, format))"

text \<open>
  Lines 76-146. \<open>images\<close> is \<open>HioImage::OpenForReading\<close> on a resolved path (\<open>None\<close>:
  the null pointer). The result is the optional texture handle. The constant \<open>2\<close> of
  line 134 is written \<open>1 + 1\<close>.
\<close>

definition makeTexture ::
  "Hio \<Rightarrow> (string \<Rightarrow> HioImage option) \<Rightarrow> 'f::{one,plus,inverse} VtValue \<Rightarrow> string \<Rightarrow> TfToken
     \<Rightarrow> TfToken \<Rightarrow> string \<Rightarrow> 'f world \<Rightarrow> (ImageHandle option \<times> 'f world) option" where
  "makeTexture hio images v swizzle colorSpace dst debug_name w =
     (case v of
        VtSdfAssetPath path \<Rightarrow>
          do {
            img \<leftarrow> images path;
            (data, format1) \<leftarrow> convert_image hio img swizzle dst;
            let format = HioGetFormat hio (HioGetComponentCount hio format1)
                           (HioGetHioType hio format1) (colorSpace = ''sRGB'')
            in (case usdFormatToMsneFormat format of
                  None \<Rightarrow> Some (None, TF_CODING_ERROR UnknownFormat w)
                | Some msne_format \<Rightarrow>
                    (let (h, w1) = create (CreateRawTexture data (GetWidth img) (GetHeight img)
                                     msne_format (debug_name @ '' texture'')) w
                     in Some (Some h, w1)))
          }
      | VtGfVec3f (GfVec3f x y z) \<Rightarrow>
          if dst = ''normal'' then
            (let (h, w1) = create (CreateSolidTexture2 (F32x2 ((x + 1) / (1 + 1)) ((y + 1) / (1 + 1)))
                             (debug_name @ '' f32x2'')) w
             in Some (Some h, w1))
          else
            (let (h, w1) = create (CreateSolidTexture3 (F32x3 x y z) (debug_name @ '' f32x3'')) w
             in Some (Some h, w1))
      | VtFloat val \<Rightarrow>
          (let (h, w1) = create (CreateSolidTexture1 val (debug_name @ '' float'')) w
           in Some (Some h, w1))
      | _ \<Rightarrow> Some (None, TF_CODING_ERROR UnknownValueType w))"

fun Get_float :: "'f::zero VtValue \<Rightarrow> 'f" where
  "Get_float (VtFloat x) = x"
| "Get_float _ = 0"

fun Get_TfToken :: "'f VtValue \<Rightarrow> TfToken" where
  "Get_TfToken (VtTfToken t) = t"
| "Get_TfToken _ = []"

text \<open>Lines 148-180.\<close>

definition SetTextureBasedOnValueAndName ::
  "Hio \<Rightarrow> (string \<Rightarrow> HioImage option) \<Rightarrow> MaterialHandle \<Rightarrow> TfToken
     \<Rightarrow> 'f::{zero,one,plus,inverse} VtValue \<Rightarrow> string \<Rightarrow> TfToken \<Rightarrow> string \<Rightarrow> 'f world
     \<Rightarrow> (bool \<times> 'f world) option" where
  "SetTextureBasedOnValueAndName hio images handle name v swizzle colorSpace debug_name w =
     (if name = ''ior'' then Some (True, issue (SetMaterialIOR handle (Get_float v)) w)
      else if name = ''useSpecularWorkflow'' then Some (True, w)
      else
        do {
          (maybe_texture, w1) \<leftarrow>
            makeTexture hio images v swizzle colorSpace name (debug_name @ '' '' @ name) w;
          (case maybe_texture of
             None \<Rightarrow> Some (False, TF_CODING_ERROR (CouldNotParseTexture (debug_name @ '' '' @ name)) w1)
           | Some texture \<Rightarrow>
               Some (True,
                 if name = ''diffuseColor'' then issue (SetMaterialColor handle texture) w1
                 else if name = ''emissiveColor'' then issue (SetMaterialEmissive handle texture) w1
                 else if name = ''normal'' then issue (SetMaterialNormal handle texture) w1
                 else if name = ''roughness'' then issue (SetMaterialRoughness handle texture) w1
                 else if name = ''metallic'' then issue (SetMaterialMetalness handle texture) w1
                 else w1))
        })"

record HdMaterialConnection2 =
  upstreamNode :: SdfPath
  upstreamOutputName :: TfToken

record 'f HdMaterialNode2 =
  nodeTypeId :: TfToken
  parameters :: "(TfToken \<times> 'f VtValue) list"
  inputConnections :: "(TfToken \<times> HdMaterialConnection2 list) list"

record 'f HdMaterialNetwork2 =
  nodes :: "(SdfPath \<times> 'f HdMaterialNode2) list"
  terminals :: "(TfToken \<times> HdMaterialConnection2) list"

text \<open>
  A node of the shader registry: its input names in their own order, its role, the
  implementation name of each output, its asset identifier inputs and the default value
  of each input.
\<close>

record 'f SdrShaderNode =
  GetInputNames :: "TfToken list"
  GetRole :: string
  GetShaderOutput :: "(TfToken \<times> string) list"
  GetAssetIdentifierInputNames :: "TfToken list"
  GetShaderInput :: "(TfToken \<times> 'f VtValue) list"

text \<open>
  The answers of the host during one call of \<open>HdMoonshineMaterial::Sync\<close>.
  \<open>GetMaterialResource\<close> is the network the resource converts to, or \<open>None\<close> when the
  resource does not hold a network map.
\<close>

record 'f material_host =
  GetId :: SdfPath
  GetMaterialResource :: "'f HdMaterialNetwork2 option"
  GetShaderNodeByIdentifier :: "TfToken \<Rightarrow> 'f SdrShaderNode option"
  OpenForReading :: "string \<Rightarrow> HioImage option"
  hio_library :: Hio

text \<open>Lines 220-246: the body of the loop over the input names.\<close>

definition syncInput ::
  "'f::{zero,one,plus,inverse} material_host \<Rightarrow> 'f HdMaterialNetwork2 \<Rightarrow> 'f HdMaterialNode2
     \<Rightarrow> 'f SdrShaderNode \<Rightarrow> MaterialHandle \<Rightarrow> TfToken \<Rightarrow> 'f world \<Rightarrow> 'f world option" where
  "syncInput host network node sdrNode handle inputName w =
     (case map_of (inputConnections node) inputName of
        Some cons \<Rightarrow>
          do {
            con \<leftarrow> (case cons of [] \<Rightarrow> None | c # _ \<Rightarrow> Some c);
            upstream \<leftarrow> map_of (nodes network) (upstreamNode con);
            upstreamSdr \<leftarrow> GetShaderNodeByIdentifier host (nodeTypeId upstream);
            if GetRole upstreamSdr = ''texture'' then
              do {
                swizzle \<leftarrow> map_of (GetShaderOutput upstreamSdr) (upstreamOutputName con);
                colorSpace \<leftarrow> map_of (parameters upstream) ''sourceColorSpace'';
                fileProperty \<leftarrow> (case GetAssetIdentifierInputNames upstreamSdr of
                                   [] \<Rightarrow> None | p # _ \<Rightarrow> Some p);
                v \<leftarrow> map_of (parameters upstream) fileProperty;
                (ok, w1) \<leftarrow> SetTextureBasedOnValueAndName (hio_library host) (OpenForReading host)
                              handle inputName v swizzle (Get_TfToken colorSpace) (GetId host) w;
                Some w1
              }
            else Some (TF_CODING_ERROR (UnknownConnection inputName (GetRole upstreamSdr)) w)
          }
      | None \<Rightarrow>
          (case map_of (parameters node) inputName of
             Some v \<Rightarrow>
               do {
                 (ok, w1) \<leftarrow> SetTextureBasedOnValueAndName (hio_library host) (OpenForReading host)
                               handle inputName v [] ''raw'' (GetId host @ '' parameter'') w;
                 Some w1
               }
           | None \<Rightarrow>
               do {
                 v \<leftarrow> map_of (GetShaderInput sdrNode) inputName;
                 (ok, w1) \<leftarrow> SetTextureBasedOnValueAndName (hio_library host) (OpenForReading host)
                               handle inputName v [] ''raw'' (GetId host @ '' default'') w;
                 Some w1
               }))"

text \<open>Lines 219-247: the loop.\<close>

fun syncInputs ::
  "'f::{zero,one,plus,inverse} material_host \<Rightarrow> 'f HdMaterialNetwork2 \<Rightarrow> 'f HdMaterialNode2
     \<Rightarrow> 'f SdrShaderNode \<Rightarrow> MaterialHandle \<Rightarrow> TfToken list \<Rightarrow> 'f world \<Rightarrow> 'f world option" where
  "syncInputs host network node sdrNode handle [] w = Some w"
| "syncInputs host network node sdrNode handle (inputName # rest) w =
     (case syncInput host network node sdrNode handle inputName w of
        None \<Rightarrow> None
      | Some w1 \<Rightarrow> syncInputs host network node sdrNode handle rest w1)"

text \<open>Lines 252-254.\<close>

definition report_leftover :: "HdMaterialDirtyBit set \<Rightarrow> 'f world \<Rightarrow> 'f world" where
  "report_leftover dirtyBits w =
     (if \<not> IsCleanMaterial dirtyBits then TF_CODING_ERROR (MaterialDirtyBitsIgnored dirtyBits) w
      else w)"

text \<open>
  Lines 182-255: \<open>HdMoonshineMaterial::Sync\<close> for the material whose renderer handle is
  \<open>handle\<close> (\<open>_handle\<close>, created by the constructor and never assigned again).
\<close>

definition Material_Sync ::
  "'f::{zero,one,plus,inverse} material_host \<Rightarrow> MaterialHandle \<Rightarrow> HdMaterialDirtyBit set \<Rightarrow> 'f world
     \<Rightarrow> (HdMaterialDirtyBit set \<times> 'f world) option" where
  "Material_Sync host handle dirtyBits w =
     (if DirtyParams \<in> dirtyBits then
        (case GetMaterialResource host of
           None \<Rightarrow> Some (dirtyBits, TF_CODING_ERROR UnknownResourceType w)
         | Some network \<Rightarrow>
             (case map_of (terminals network) ''surface'' of
                None \<Rightarrow> Some (dirtyBits, TF_CODING_ERROR NoSurfaceConnection w)
              | Some connection \<Rightarrow>
                  do {
                    node \<leftarrow> map_of (nodes network) (upstreamNode connection);
                    if nodeTypeId node \<noteq> ''UsdPreviewSurface''
                    then Some (dirtyBits, TF_CODING_ERROR (UnknownNode (nodeTypeId node)) w)
                    else
                      do {
                        sdrNode \<leftarrow> GetShaderNodeByIdentifier host (nodeTypeId node);
                        w1 \<leftarrow> syncInputs host network node sdrNode handle (GetInputNames sdrNode) w;
                        Some (dirtyBits - {DirtyParams}, report_leftover (dirtyBits - {DirtyParams}) w1)
                      }
                  }))
      else Some (dirtyBits, report_leftover dirtyBits w))"

section \<open>Sequences of mesh syncs, and a new mesh record\<close>

text \<open>
  The host calls \<open>Sync\<close> again and again on the same record, each time with its own
  answers and its own dirty bits (the change tracker owns them between the calls).
\<close>

fun Sync_all ::
  "HdMoonshineRenderParam \<Rightarrow> ('f::{zero,one,plus,times} mesh_host \<times> HdDirtyBits) list
     \<Rightarrow> 'f HdMoonshineMesh \<Rightarrow> 'f world \<Rightarrow> ('f HdMoonshineMesh \<times> 'f world) option" where
  "Sync_all renderParam [] r w = Some (r, w)"
| "Sync_all renderParam ((host, dirtyBits) # rest) r w =
     (case Sync host renderParam r dirtyBits w of
        None \<Rightarrow> None
      | Some (r1, bits1, w1) \<Rightarrow> Sync_all renderParam rest r1 w1)"

text \<open>
  Lines 25-27: the constructor sets \<open>_material\<close>, and the two vectors start empty.
  \<open>mesh0\<close>, \<open>transform0\<close> and \<open>visible0\<close> are whatever \<open>_mesh\<close>, \<open>_transform\<close> and
  the visibility of the base class hold before their first assignment.
\<close>

definition HdMoonshineMesh_new ::
  "HdMoonshineRenderParam \<Rightarrow> MeshHandle \<Rightarrow> 'f GfMatrix4f \<Rightarrow> bool \<Rightarrow> 'f HdMoonshineMesh" where
  "HdMoonshineMesh_new renderParam mesh0 transform0 visible0 =
     \<lparr>mesh = mesh0, material = defaultMaterial renderParam, transform = transform0,
      instancesTransforms = [], instances = [], visible = visible0\<rparr>"

section \<open>Released and created instance handles\<close>

text \<open>
  \<open>DestroyInstance\<close> is the only entry point among the renderer calls that releases a
  resource. \<open>destroyed_instances\<close> lists the handles a sequence of calls passes to it;
  \<open>created_instances answer before calls\<close> is the set of handles the renderer returns
  for the \<open>CreateInstance\<close> calls among \<open>calls\<close>, made after the calls \<open>before\<close>.
\<close>

fun destroyed_instances :: "'f renderer_call list \<Rightarrow> InstanceHandle list" where
  "destroyed_instances [] = []"
| "destroyed_instances (DestroyInstance h # cs) = h # destroyed_instances cs"
| "destroyed_instances (c # cs) = destroyed_instances cs"

fun created_instances ::
  "('f renderer_call list \<Rightarrow> nat) \<Rightarrow> 'f renderer_call list \<Rightarrow> 'f renderer_call list
     \<Rightarrow> InstanceHandle set" where
  "created_instances answer before [] = {}"
| "created_instances answer before (CreateInstance m me ma vis # cs) =
     insert (answer (before @ [CreateInstance m me ma vis]))
       (created_instances answer (before @ [CreateInstance m me ma vis]) cs)"
| "created_instances answer before (c # cs) = created_instances answer (before @ [c]) cs"

text \<open>A sequence of syncs of one material.\<close>

fun Material_Sync_all ::
  "MaterialHandle \<Rightarrow> ('f::{zero,one,plus,inverse} material_host \<times> HdMaterialDirtyBit set) list
     \<Rightarrow> 'f world \<Rightarrow> 'f world option" where
  "Material_Sync_all handle [] w = Some w"
| "Material_Sync_all handle ((host, dirtyBits) # rest) w =
     (case Material_Sync host handle dirtyBits w of
        None \<Rightarrow> None
      | Some (bits1, w1) \<Rightarrow> Material_Sync_all handle rest w1)"

text \<open>The world \<open>w1\<close> continues \<open>w\<close> by calls that destroy nothing.\<close>

definition no_release :: "'f world \<Rightarrow> 'f world \<Rightarrow> bool" where
  "no_release w w1 \<longleftrightarrow> (\<exists>new. calls w1 = calls w @ new \<and> destroyed_instances new = [])"

section \<open>Example inputs\<close>

text \<open>A renderer that has seen no call yet and numbers its handles by the calls made.\<close>

definition example_world :: "real world" where
  "example_world = \<lparr>calls = [], handle_of = length, codingErrors = []\<rparr>"

definition example_renderParam :: HdMoonshineRenderParam where
  "example_renderParam =
     \<lparr>black3 = 101, black1 = 102, upNormal = 103, grey3 = 104, white1 = 105, defaultMaterial = 106\<rparr>"

definition example_triangle :: "real GfVec3f list" where
  "example_triangle = [GfVec3f 0 0 0, GfVec3f 1 0 0, GfVec3f 0 1 0]"

text \<open>One triangle with authored points only, no material binding and no instancer.\<close>

definition example_host :: "real mesh_host" where
  "example_host =
     \<lparr>ComputeTriangleIndices = [(0, 1, 2)],
      GetExtComputationPrimvarDescriptors = (\<lambda>interp. []),
      GetComputedPrimvarValues = (\<lambda>interp. []),
      GetPrimvarDescriptors = (\<lambda>interp. []),
      Get = (\<lambda>name. if name = ''points'' then VtVec3fArray example_triangle else VtEmpty),
      ComputeTriangulatedFaceVaryingPrimvar = (\<lambda>name. VtEmpty),
      GetVisible = True,
      GetMaterialId = [],
      GetSprim = (\<lambda>path. None),
      GetTransform = GfMatrix4f_diagonal 2,
      GetInstancerId = [],
      GetInstancer = (\<lambda>path. None)\<rparr>"

text \<open>The same mesh without any point data.\<close>

definition example_pointless :: "real mesh_host" where
  "example_pointless = example_host\<lparr>Get := (\<lambda>name. VtEmpty)\<rparr>"

text \<open>The same mesh under an instancer with \<open>n\<close> instances, scaled by 1, 2, ..., \<open>n\<close>.\<close>

definition example_instanced :: "nat \<Rightarrow> real mesh_host" where
  "example_instanced n =
     example_host\<lparr>GetInstancerId := ''/instancer'',
                  GetInstancer := (\<lambda>path. Some (map (\<lambda>k. GfMatrix4f_diagonal (of_nat (Suc k))) [0..<n]))\<rparr>"

text \<open>The same mesh bound to the material at \<open>/matA\<close> (realized, handle 7) or at \<open>/matB\<close> (not realized).\<close>

definition example_bound :: "SdfPath \<Rightarrow> real mesh_host" where
  "example_bound path =
     example_host\<lparr>GetMaterialId := path,
                  GetSprim := (\<lambda>p. if p = ''/matA'' then Some 7 else None)\<rparr>"

definition example_mesh :: "real HdMoonshineMesh" where
  "example_mesh = HdMoonshineMesh_new example_renderParam 0 (GfMatrix4f_diagonal 1) True"

text \<open>A record that holds two instances.\<close>

definition example_mesh2 :: "real HdMoonshineMesh" where
  "example_mesh2 =
     \<lparr>mesh = 1, material = 106, transform = GfMatrix4f_diagonal 1,
      instancesTransforms = [GfMatrix4f_diagonal 1, GfMatrix4f_diagonal 3],
      instances = [5, 6], visible = True\<rparr>"

text \<open>Format helpers for 8 bit, 16 bit float and 32 bit float images.\<close>

definition example_hio :: Hio where
  "example_hio =
     \<lparr>HioGetFormat = (\<lambda>n ty srgb.
        if ty = 0 then
          (if n = 1 then HioFormatUNorm8 else if n = 2 then HioFormatUNorm8Vec2
           else if n = 3 then (if srgb then HioFormatUNorm8Vec3srgb else HioFormatUNorm8Vec3)
           else if n = 4 then (if srgb then HioFormatUNorm8Vec4srgb else HioFormatUNorm8Vec4)
           else HioFormatOther 0)
        else if ty = 1 \<and> n = 3 then HioFormatFloat16Vec3
        else HioFormatOther (4 * ty + (n - 1))),
      HioGetHioType = (\<lambda>f. case f of HioFormatFloat16Vec3 \<Rightarrow> 1 | HioFormatOther k \<Rightarrow> k div 4 | _ \<Rightarrow> 0),
      HioGetComponentCount = (\<lambda>f. case f of
          HioFormatUNorm8 \<Rightarrow> 1 | HioFormatUNorm8Vec2 \<Rightarrow> 2 | HioFormatUNorm8Vec3 \<Rightarrow> 3
        | HioFormatUNorm8Vec4 \<Rightarrow> 4 | HioFormatUNorm8Vec3srgb \<Rightarrow> 3 | HioFormatUNorm8Vec4srgb \<Rightarrow> 4
        | HioFormatFloat16Vec3 \<Rightarrow> 3 | HioFormatOther k \<Rightarrow> k mod 4 + 1),
      HioGetDataSizeOfType = (\<lambda>f. case f of HioFormatFloat16Vec3 \<Rightarrow> 2 | HioFormatOther k \<Rightarrow> 4 | _ \<Rightarrow> 1),
      HioGetDataSizeOfFormat = (\<lambda>f. case f of
          HioFormatUNorm8 \<Rightarrow> 1 | HioFormatUNorm8Vec2 \<Rightarrow> 2 | HioFormatUNorm8Vec3 \<Rightarrow> 3
        | HioFormatUNorm8Vec4 \<Rightarrow> 4 | HioFormatUNorm8Vec3srgb \<Rightarrow> 3 | HioFormatUNorm8Vec4srgb \<Rightarrow> 4
        | HioFormatFloat16Vec3 \<Rightarrow> 6 | HioFormatOther k \<Rightarrow> 4 * (k mod 4 + 1))\<rparr>"

definition example_images :: "string \<Rightarrow> HioImage option" where
  "example_images path =
     (if path = ''wood.exr'' then
        Some \<lparr>GetFormat = HioFormatOther 11, GetWidth = 1, GetHeight = 1, GetBytesPerPixel = 16,
              Read = replicate 16 0\<rparr>
      else None)"

text \<open>The shader registry: the preview surface, a texture reader and a node of another role.\<close>

definition example_sdr :: "real SdrShaderNode" where
  "example_sdr =
     \<lparr>GetInputNames = [''diffuseColor'', ''emissiveColor'', ''useSpecularWorkflow'',
                       ''metallic'', ''roughness'', ''normal'', ''ior''],
      GetRole = ''surface'',
      GetShaderOutput = [(''surface'', ''surface'')],
      GetAssetIdentifierInputNames = [],
      GetShaderInput =
        [(''diffuseColor'', VtGfVec3f (GfVec3f 1 1 1)),
         (''emissiveColor'', VtGfVec3f (GfVec3f 0 0 0)),
         (''useSpecularWorkflow'', VtOther ''int''),
         (''metallic'', VtFloat 0),
         (''roughness'', VtFloat 1),
         (''normal'', VtGfVec3f (GfVec3f 0 0 1)),
         (''ior'', VtFloat 2)]\<rparr>"

definition example_registry :: "TfToken \<Rightarrow> real SdrShaderNode option" where
  "example_registry nodeType =
     (if nodeType = ''UsdPreviewSurface'' then Some example_sdr
      else if nodeType = ''UsdUVTexture'' then
        Some \<lparr>GetInputNames = [''file'', ''sourceColorSpace''],
              GetRole = ''texture'',
              GetShaderOutput = [(''rgb'', ''rgb''), (''r'', ''r'')],
              GetAssetIdentifierInputNames = [''file''],
              GetShaderInput = []\<rparr>
      else if nodeType = ''UsdTransform2d'' then
        Some \<lparr>GetInputNames = [''in''], GetRole = ''math'', GetShaderOutput = [(''result'', ''result'')],
              GetAssetIdentifierInputNames = [], GetShaderInput = []\<rparr>
      else None)"

text \<open>
  A surface node of the given type: \<open>diffuseColor\<close> reads a texture whose pixel format
  the renderer does not have, \<open>metallic\<close> is a parameter of a type that is no texture
  value, \<open>roughness\<close> is a float parameter, \<open>normal\<close> is connected to a node that is not
  a texture, and the other inputs have neither connection nor parameter.
\<close>

definition example_surface_node :: "TfToken \<Rightarrow> real HdMaterialNode2" where
  "example_surface_node nodeType =
     \<lparr>nodeTypeId = nodeType,
      parameters = [(''metallic'', VtOther ''string''), (''roughness'', VtFloat 3)],
      inputConnections =
        [(''diffuseColor'', [\<lparr>upstreamNode = ''/mat/tex'', upstreamOutputName = ''rgb''\<rparr>]),
         (''normal'', [\<lparr>upstreamNode = ''/mat/xform'', upstreamOutputName = ''result''\<rparr>])]\<rparr>"

definition example_network :: "TfToken \<Rightarrow> TfToken \<Rightarrow> real HdMaterialNetwork2" where
  "example_network terminal nodeType =
     \<lparr>nodes =
        [(''/mat/surface'', example_surface_node nodeType),
         (''/mat/tex'',
          \<lparr>nodeTypeId = ''UsdUVTexture'',
           parameters = [(''file'', VtSdfAssetPath ''wood.exr''), (''sourceColorSpace'', VtTfToken ''raw'')],
           inputConnections = []\<rparr>),
         (''/mat/xform'',
          \<lparr>nodeTypeId = ''UsdTransform2d'', parameters = [], inputConnections = []\<rparr>)],
      terminals = [(terminal, \<lparr>upstreamNode = ''/mat/surface'', upstreamOutputName = ''surface''\<rparr>)]\<rparr>"

definition example_material_host :: "real HdMaterialNetwork2 option \<Rightarrow> real material_host" where
  "example_material_host resource =
     \<lparr>GetId = ''/mat'', GetMaterialResource = resource, GetShaderNodeByIdentifier = example_registry,
      OpenForReading = example_images, hio_library = example_hio\<rparr>"

definition example_surface :: "real material_host" where
  "example_surface = example_material_host (Some (example_network ''surface'' ''UsdPreviewSurface''))"

text \<open>A record that holds two instances of a material bound earlier.\<close>

definition example_mesh_bound :: "real HdMoonshineMesh" where
  "example_mesh_bound = example_mesh2\<lparr>material := 7\<rparr>"

text \<open>Three syncs of a new mesh: alone, under three instances, under two.\<close>

definition example_steps :: "(real mesh_host \<times> HdDirtyBits) list" where
  "example_steps =
     [(example_host, GetInitialDirtyBitsMask),
      (example_instanced 3, {DirtyPoints, DirtyInstancer}),
      (example_instanced 2, {DirtyInstancer})]"

text \<open>A transform that is neither diagonal nor symmetric.\<close>

definition example_shear :: "real GfMatrix4f" where
  "example_shear = GfMatrix4f (GfVec4f 1 2 0 0) (GfVec4f 0 1 0 0) (GfVec4f 0 0 1 0) (GfVec4f 5 6 7 1)"

text \<open>A quad of two triangles, with authored points only.\<close>

definition example_quad :: "real GfVec3f list" where
  "example_quad = [GfVec3f 0 0 0, GfVec3f 1 0 0, GfVec3f 1 1 0, GfVec3f 0 1 0]"

definition example_quad_host :: "real mesh_host" where
  "example_quad_host =
     example_host\<lparr>ComputeTriangleIndices := [(0, 1, 2), (0, 2, 3)],
                  Get := (\<lambda>name. if name = ''points'' then VtVec3fArray example_quad else VtEmpty),
                  GetTransform := example_shear\<rparr>"

text \<open>
  The same quad with a computed point source listed for the vertex interpolation; the
  value store is given.
\<close>

definition example_lifted_quad :: "real GfVec3f list" where
  "example_lifted_quad = [GfVec3f 0 0 9, GfVec3f 1 0 9, GfVec3f 1 1 9, GfVec3f 0 1 9]"

definition example_computed_host :: "(TfToken \<times> real VtValue) list \<Rightarrow> real mesh_host" where
  "example_computed_host valueStore =
     example_quad_host\<lparr>
       GetExtComputationPrimvarDescriptors :=
         (\<lambda>interp. if interp = HdInterpolationVertex then [''points''] else []),
       GetComputedPrimvarValues := (\<lambda>interp. valueStore)\<rparr>"

text \<open>The triangle under the other transform.\<close>

definition example_moved :: "real mesh_host" where
  "example_moved = example_host\<lparr>GetTransform := example_shear\<rparr>"

text \<open>
  Four syncs of a new mesh: alone, with new points under two instances, under one
  instance, and with a new transform.
\<close>

definition example_steps_transform :: "(real mesh_host \<times> HdDirtyBits) list" where
  "example_steps_transform =
     [(example_host, GetInitialDirtyBitsMask),
      (example_instanced 2, {DirtyPoints, DirtyInstancer}),
      (example_instanced 1, {DirtyInstancer}),
      (example_moved, {DirtyTransform})]"


text \<open>The example material with another texture node behind \<open>diffuseColor\<close>.\<close>

definition example_texture_network ::
  "TfToken \<Rightarrow> (TfToken \<times> real VtValue) list \<Rightarrow> real HdMaterialNetwork2" where
  "example_texture_network textureType textureParameters =
     \<lparr>nodes =
        [(''/mat/surface'', example_surface_node ''UsdPreviewSurface''),
         (''/mat/tex'',
          \<lparr>nodeTypeId = textureType, parameters = textureParameters, inputConnections = []\<rparr>),
         (''/mat/xform'',
          \<lparr>nodeTypeId = ''UsdTransform2d'', parameters = [], inputConnections = []\<rparr>)],
      terminals = [(''surface'', \<lparr>upstreamNode = ''/mat/surface'', upstreamOutputName = ''surface''\<rparr>)]\<rparr>"

section \<open>Properties of the mesh sync\<close>

lemmas example_defs =
  example_world_def example_renderParam_def example_triangle_def example_host_def
  example_pointless_def example_instanced_def example_bound_def example_mesh_def
  example_mesh2_def example_mesh_bound_def HdMoonshineMesh_new_def

lemmas more_example_defs = example_defs example_shear_def example_quad_def example_quad_host_def
  example_lifted_quad_def example_computed_host_def example_moved_def example_steps_transform_def

lemmas material_example_defs =
  example_hio_def example_images_def example_sdr_def example_registry_def
  example_surface_node_def example_network_def example_material_host_def example_surface_def
  example_world_def

lemmas Material_Sync_defs =
  Material_Sync_def syncInput_def SetTextureBasedOnValueAndName_def makeTexture_def
  convert_image_def read_image_def imageSize_of_def report_leftover_def IsCleanMaterial_def
  create_def issue_def TF_CODING_ERROR_def

lemmas Sync_defs =
  Sync_def Sync_after_points_def syncInstancer_def syncInstances_def indexedPoints_of_def
  all_interpolations_def Get_array_def texcoords_of_def texcoordName_of_def
  FindPrimvarInterpolation_def ComputePrimvar_def create_def issue_def TF_CODING_ERROR_def
  IsClean_def GetInitialDirtyBitsMask_def at_index_def GfMatrix4f_diagonal_def insert_Diff_if

lemma issue_simps [simp]:
  "calls (issue c w) = calls w @ [c]"
  "handle_of (issue c w) = handle_of w"
  "codingErrors (issue c w) = codingErrors w"
  by (simp_all add: issue_def)

lemma TF_CODING_ERROR_simps [simp]:
  "calls (TF_CODING_ERROR d w) = calls w"
  "handle_of (TF_CODING_ERROR d w) = handle_of w"
  "codingErrors (TF_CODING_ERROR d w) = codingErrors w @ [d]"
  by (simp_all add: TF_CODING_ERROR_def)

lemma destroyInstances_eq:
  "destroyInstances hs w = w\<lparr>calls := calls w @ map DestroyInstance hs\<rparr>"
  by (induction hs arbitrary: w) (simp_all add: issue_def)

lemma setInstanceVisibilities_eq:
  "setInstanceVisibilities vis hs w =
     w\<lparr>calls := calls w @ map (\<lambda>h. SetInstanceVisibility h vis) hs\<rparr>"
  by (induction hs arbitrary: w) (simp_all add: issue_def)

lemma setInstanceTransforms_eq:
  "length its \<le> length hs \<Longrightarrow>
   setInstanceTransforms t its hs w =
     Some (w\<lparr>calls := calls w @
       map (\<lambda>(h, it). SetInstanceTransform h (toMat3x4 (GfMatrix4f_times t it))) (zip hs its)\<rparr>)"
  by (induction t its hs w rule: setInstanceTransforms.induct) (simp_all add: issue_def)

lemma setInstanceTransforms_None:
  "length hs < length its \<Longrightarrow> setInstanceTransforms t its hs w = None"
  by (induction t its hs w rule: setInstanceTransforms.induct) simp_all

lemma createInstances_length:
  "length (fst (createInstances t me ma vis its w)) = length its"
  by (induction its arbitrary: w) (simp_all add: split_def Let_def)

lemma createInstances_calls:
  "calls (snd (createInstances t me ma vis its w)) =
     calls w @ map (\<lambda>it. CreateInstance (toMat3x4 (GfMatrix4f_times t it)) me ma vis) its"
  by (induction its arbitrary: w) (simp_all add: split_def Let_def create_def)

lemma createInstances_frame:
  "codingErrors (snd (createInstances t me ma vis its w)) = codingErrors w"
  "handle_of (snd (createInstances t me ma vis its w)) = handle_of w"
  by (induction its arbitrary: w) (simp_all add: split_def Let_def create_def)

lemma fancy_points_of_absent:
  "''points'' \<notin> set compPrimvars \<Longrightarrow> fancy_points_of valueStore compPrimvars pts = Some pts"
  by (induction compPrimvars arbitrary: pts) auto

lemma fancy_points_absent:
  "(\<And>interp. ''points'' \<notin> set (GetExtComputationPrimvarDescriptors host interp)) \<Longrightarrow>
   fancy_points host interps pts = Some pts"
  by (induction interps arbitrary: pts) (simp_all add: fancy_points_of_absent)



text \<open>
  A sync with the transform bit alone, on a record that holds one instance handle per
  stored instance transform: the record changes in \<open>_transform\<close> only, no bit is
  left, and the renderer receives one \<open>SetInstanceTransform\<close> per instance handle, in
  order, with the new local-to-world transform times that instance's transform, and
  nothing else.
\<close>

theorem Sync_transform_only:
  assumes "length (instances r) = length (instancesTransforms r)"
  shows "Sync host renderParam r {DirtyTransform} w =
           Some (r\<lparr>transform := GetTransform host\<rparr>, {},
                 w\<lparr>calls := calls w @
                    map (\<lambda>(h, it). SetInstanceTransform h
                                     (toMat3x4 (GfMatrix4f_times (GetTransform host) it)))
                      (zip (instances r) (instancesTransforms r))\<rparr>)"
  using assms
  by (simp add: Sync_def Sync_after_points_def syncInstancer_def syncInstances_def
      setInstanceTransforms_eq IsClean_def)

theorem Sync_transform_only_witness:
  "length (instances example_mesh2) = length (instancesTransforms example_mesh2)
   \<and> Sync example_host example_renderParam example_mesh2 {DirtyTransform} example_world =
       Some (example_mesh2\<lparr>transform := GfMatrix4f_diagonal 2\<rparr>, {},
             example_world\<lparr>calls :=
               [SetInstanceTransform 5 (Mat3x4 (F32x4 2 0 0 0) (F32x4 0 2 0 0) (F32x4 0 0 2 0)),
                SetInstanceTransform 6 (Mat3x4 (F32x4 6 0 0 0) (F32x4 0 6 0 0) (F32x4 0 0 6 0))]\<rparr>)"
proof -
  have h: "length (instances example_mesh2) = length (instancesTransforms example_mesh2)"
    by (simp add: example_defs)
  show ?thesis
    using h Sync_transform_only [OF h, of example_host example_renderParam example_world]
    by (simp add: example_defs GfMatrix4f_diagonal_def)
qed

text \<open>
  C2, as stated, fails. With exactly the bits points, transform, visibility and material
  binding, the instancer block (lines 218-233) does not run, \<open>_instancesTransforms\<close> of a
  new record stays empty, and the rebuild creates no instance: the first sync of the
  example triangle ends with no dirty bit and no instance handle. And whatever the bits,
  a triangle index beyond the points (line 149 reads \<open>indexedPoints[3]\<close> of three
  points) and a computed point source that is listed but has no value in the value
  store (line 129 dereferences the end iterator) are undefined behaviour, though the
  authored points are there.
\<close>

theorem Sync_first_time_without_instancer_bit:
  "map_option (\<lambda>(r, bits, w). (length (instances r), bits))
     (Sync example_host example_renderParam example_mesh
        {DirtyPoints, DirtyTransform, DirtyVisibility, DirtyMaterialId} example_world) = Some (0, {})
   \<and> Option.is_none
       (Sync (example_host\<lparr>ComputeTriangleIndices := [(0, 1, 3)]\<rparr>) example_renderParam example_mesh
          {DirtyPoints, DirtyTransform, DirtyVisibility, DirtyMaterialId} example_world)
   \<and> Option.is_none
       (Sync (example_host\<lparr>ComputeTriangleIndices := [(0, 1, 3)]\<rparr>) example_renderParam example_mesh
          GetInitialDirtyBitsMask example_world)
   \<and> Option.is_none
       (Sync (example_computed_host []) example_renderParam example_mesh
          {DirtyPoints, DirtyTransform, DirtyVisibility, DirtyMaterialId} example_world)
   \<and> Option.is_none
       (Sync (example_computed_host []) example_renderParam example_mesh
          GetInitialDirtyBitsMask example_world)"
proof (intro conjI)
  show "map_option (\<lambda>(r, bits, w). (length (instances r), bits))
     (Sync example_host example_renderParam example_mesh
        {DirtyPoints, DirtyTransform, DirtyVisibility, DirtyMaterialId} example_world) = Some (0, {})"
    by (simp add: example_defs Sync_defs)
qed code_simp+

lemma unindexed_in_range:
  assumes "\<forall>(i0, i1, i2) \<in> set indices.
             0 \<le> i0 \<and> nat i0 < length xs \<and> 0 \<le> i1 \<and> nat i1 < length xs
           \<and> 0 \<le> i2 \<and> nat i2 < length xs"
  shows "unindexed xs indices =
           Some (concat (map (\<lambda>(i0, i1, i2). [xs ! nat i0, xs ! nat i1, xs ! nat i2]) indices))"
  using assms by (induction indices) (auto simp: at_index_def)

text \<open>
  C2, amended: the first sync has the bits of \<open>GetInitialDirtyBitsMask\<close> (points,
  transform, instancer, visibility, material binding). With no instancer bound, authored
  points that are not empty, a value in the value store for every computed point source
  that is listed, every triangle index within the point array, and no \<open>st\<close>, \<open>st0\<close> or
  \<open>normals\<close> primvar, the sync of a new record ends with no dirty bit and exactly one
  instance handle. The point array is the computed one when it is not empty and the
  authored one otherwise; \<open>_mesh\<close> is the handle returned for the mesh created from
  three points per triangle, the points at the triangle's three indices in order, with
  empty normals and texcoords. That creation and the creation of the instance are the
  only renderer calls, and nothing is reported.
\<close>

theorem Sync_first_time:
  assumes "fancy_points host all_interpolations [] = Some fancy"
    and "Get host ''points'' = VtVec3fArray authored"
    and "authored \<noteq> []"
    and "indexedPoints = (if fancy = [] then authored else fancy)"
    and "\<forall>(i0, i1, i2) \<in> set (ComputeTriangleIndices host).
           0 \<le> i0 \<and> nat i0 < length indexedPoints \<and> 0 \<le> i1 \<and> nat i1 < length indexedPoints
         \<and> 0 \<le> i2 \<and> nat i2 < length indexedPoints"
    and "points = concat (map (\<lambda>(i0, i1, i2). [indexedPoints ! nat i0, indexedPoints ! nat i1,
                                                   indexedPoints ! nat i2])
                            (ComputeTriangleIndices host))"
    and "\<And>interp. set (GetPrimvarDescriptors host interp) \<inter> {''st'', ''st0'', ''normals''} = {}"
    and "GetInstancerId host = []"
  shows "\<exists>r' w'.
           Sync host renderParam (HdMoonshineMesh_new renderParam mesh0 transform0 visible0)
             GetInitialDirtyBitsMask w = Some (r', {}, w')
         \<and> length (instances r') = 1
         \<and> mesh r' = handle_of w (calls w @ [CreateMesh points [] [] (length points)])
         \<and> calls w' = calls w @
               [CreateMesh points [] [] (length points),
                CreateInstance (toMat3x4 (GfMatrix4f_times (GetTransform host) (GfMatrix4f_diagonal 1)))
                  (mesh r') (material r') (GetVisible host)]
         \<and> codingErrors w' = codingErrors w"
proof -
  have ne: "indexedPoints \<noteq> []"
    using assms(3,4) by simp
  have ip: "indexedPoints_of host = Some indexedPoints"
    using assms(1,2,4) by (simp add: indexedPoints_of_def Get_array_def)
  have un: "unindexed indexedPoints (ComputeTriangleIndices host) = Some points"
    unfolding assms(6) using assms(5) by (rule unindexed_in_range)
  have nofind: "FindPrimvarInterpolation host name = None"
    if "name \<in> {''st'', ''st0'', ''normals''}" for name
    using assms(7) that unfolding FindPrimvarInterpolation_def find_None_iff by blast
  have tc: "texcoords_of host (ComputeTriangleIndices host) v = Some ([], v)" for v
    by (simp add: texcoords_of_def texcoordName_of_def nofind)
  have nm: "ComputePrimvar Holding_VtVec3fArray host (ComputeTriangleIndices host) ''normals'' v
              = Some ([], v)" for v
    by (simp add: ComputePrimvar_def nofind split: option.split)
  show ?thesis
    using ne un assms(8)
    by (simp add: Sync_def ip tc nm create_def Sync_after_points_def syncInstancer_def
        syncInstances_def GetInitialDirtyBitsMask_def HdMoonshineMesh_new_def insert_Diff_if
        IsClean_def issue_def destroyInstances_eq Let_def split: option.split)
qed

theorem Sync_first_time_witness:
  "fancy_points example_quad_host all_interpolations [] = Some []
   \<and> Get example_quad_host ''points'' = VtVec3fArray example_quad
   \<and> example_quad \<noteq> []
   \<and> list_all (\<lambda>(i0, i1, i2). 0 \<le> i0 \<and> nat i0 < length example_quad \<and> 0 \<le> i1
                  \<and> nat i1 < length example_quad \<and> 0 \<le> i2 \<and> nat i2 < length example_quad)
         (ComputeTriangleIndices example_quad_host)
   \<and> (\<forall>interp. set (GetPrimvarDescriptors example_quad_host interp) \<inter> {''st'', ''st0'', ''normals''} = {})
   \<and> GetInstancerId example_quad_host = []
   \<and> (\<exists>r' w'.
         Sync example_quad_host example_renderParam
           (HdMoonshineMesh_new example_renderParam 0 (GfMatrix4f_diagonal 1) True)
           GetInitialDirtyBitsMask example_world = Some (r', {}, w')
       \<and> length (instances r') = 1
       \<and> mesh r' = 1
       \<and> calls w' =
             [CreateMesh [GfVec3f 0 0 0, GfVec3f 1 0 0, GfVec3f 1 1 0,
                          GfVec3f 0 0 0, GfVec3f 1 1 0, GfVec3f 0 1 0] [] [] 6,
              CreateInstance (Mat3x4 (F32x4 1 0 0 5) (F32x4 2 1 0 6) (F32x4 0 0 1 7))
                (mesh r') (material r') True]
       \<and> codingErrors w' = [])
   \<and> fancy_points (example_computed_host [(''points'', VtVec3fArray example_lifted_quad)])
         all_interpolations [] = Some example_lifted_quad
   \<and> (\<exists>r' w'.
         Sync (example_computed_host [(''points'', VtVec3fArray example_lifted_quad)]) example_renderParam
           (HdMoonshineMesh_new example_renderParam 0 (GfMatrix4f_diagonal 1) True)
           GetInitialDirtyBitsMask example_world = Some (r', {}, w')
       \<and> length (instances r') = 1
       \<and> mesh r' = 1
       \<and> calls w' =
             [CreateMesh [GfVec3f 0 0 9, GfVec3f 1 0 9, GfVec3f 1 1 9,
                          GfVec3f 0 0 9, GfVec3f 1 1 9, GfVec3f 0 1 9] [] [] 6,
              CreateInstance (Mat3x4 (F32x4 1 0 0 5) (F32x4 2 1 0 6) (F32x4 0 0 1 7))
                (mesh r') (material r') True]
       \<and> codingErrors w' = [])"
proof -
  let ?c = "example_computed_host [(''points'', VtVec3fArray example_lifted_quad)]"
  let ?q = "[GfVec3f 0 0 0, GfVec3f 1 0 0, GfVec3f 1 1 0,
             GfVec3f 0 0 0, GfVec3f 1 1 0, GfVec3f (0::real) 1 0]"
  let ?l = "[GfVec3f 0 0 9, GfVec3f 1 0 9, GfVec3f 1 1 9,
             GfVec3f 0 0 9, GfVec3f 1 1 9, GfVec3f (0::real) 1 9]"
  have a1: "fancy_points example_quad_host all_interpolations [] = Some []"
    by (simp add: more_example_defs all_interpolations_def)
  have b1: "fancy_points ?c all_interpolations [] = Some example_lifted_quad"
    by (simp add: more_example_defs all_interpolations_def Get_array_def)
  have a2: "Get example_quad_host ''points'' = VtVec3fArray example_quad"
    and b2: "Get ?c ''points'' = VtVec3fArray example_quad"
    by (simp_all add: more_example_defs)
  have h3: "example_quad \<noteq> []"
    by (simp add: more_example_defs)
  have a4: "example_quad = (if ([]::real GfVec3f list) = [] then example_quad else [])"
    and b4: "example_lifted_quad = (if example_lifted_quad = [] then example_quad else example_lifted_quad)"
    by (simp_all add: more_example_defs)
  have a5: "\<forall>(i0, i1, i2) \<in> set (ComputeTriangleIndices example_quad_host).
           0 \<le> i0 \<and> nat i0 < length example_quad \<and> 0 \<le> i1 \<and> nat i1 < length example_quad
         \<and> 0 \<le> i2 \<and> nat i2 < length example_quad"
    and b5: "\<forall>(i0, i1, i2) \<in> set (ComputeTriangleIndices ?c).
           0 \<le> i0 \<and> nat i0 < length example_lifted_quad \<and> 0 \<le> i1 \<and> nat i1 < length example_lifted_quad
         \<and> 0 \<le> i2 \<and> nat i2 < length example_lifted_quad"
    by (simp_all add: more_example_defs)
  have a6: "?q = concat (map (\<lambda>(i0, i1, i2). [example_quad ! nat i0, example_quad ! nat i1,
                                                 example_quad ! nat i2])
                            (ComputeTriangleIndices example_quad_host))"
    and b6: "?l = concat (map (\<lambda>(i0, i1, i2). [example_lifted_quad ! nat i0, example_lifted_quad ! nat i1,
                                                 example_lifted_quad ! nat i2])
                            (ComputeTriangleIndices ?c))"
    by (simp_all add: more_example_defs)
  have a7: "set (GetPrimvarDescriptors example_quad_host interp) \<inter> {''st'', ''st0'', ''normals''} = {}"
    and b7: "set (GetPrimvarDescriptors ?c interp) \<inter> {''st'', ''st0'', ''normals''} = {}"
    for interp by (simp_all add: more_example_defs)
  have a8: "GetInstancerId example_quad_host = []" and b8: "GetInstancerId ?c = []"
    by (simp_all add: more_example_defs)
  have t: "toMat3x4 (GfMatrix4f_times (GetTransform example_quad_host) (GfMatrix4f_diagonal 1)) =
             Mat3x4 (F32x4 (1::real) 0 0 5) (F32x4 2 1 0 6) (F32x4 0 0 1 7)"
    "toMat3x4 (GfMatrix4f_times (GetTransform ?c) (GfMatrix4f_diagonal 1)) =
             Mat3x4 (F32x4 (1::real) 0 0 5) (F32x4 2 1 0 6) (F32x4 0 0 1 7)"
    by (simp_all add: more_example_defs GfMatrix4f_diagonal_def)
  have l: "GetVisible example_quad_host = True" "GetVisible ?c = True"
    "calls example_world = []" "codingErrors example_world = []"
    "handle_of example_world = length"
    by (simp_all add: more_example_defs)
  have lq: "length ?q = 6" "length ?l = 6"
    by simp_all
  have r: "list_all (\<lambda>(i0, i1, i2). 0 \<le> i0 \<and> nat i0 < length example_quad \<and> 0 \<le> i1
                  \<and> nat i1 < length example_quad \<and> 0 \<le> i2 \<and> nat i2 < length example_quad)
         (ComputeTriangleIndices example_quad_host)"
    using a5 by (simp add: list_all_iff)
  show ?thesis
    using a1 b1 a2 h3 r a7 a8
      Sync_first_time [OF a1 a2 h3 a4 a5 a6 a7 a8, of example_renderParam 0 "GfMatrix4f_diagonal 1" True
        example_world]
      Sync_first_time [OF b1 b2 h3 b4 b5 b6 b7 b8, of example_renderParam 0 "GfMatrix4f_diagonal 1" True
        example_world]
    unfolding t l lq by simp
qed

lemma syncInstancer_Some:
  assumes "syncInstancer host r bits = Some (c, r', bits')"
  shows "c = False \<and> material r' = material r \<and> mesh r' = mesh r \<and> instances r' = instances r
    \<and> transform r' = transform r \<and> visible r' = visible r \<and> bits' = bits - {DirtyInstancer}"
proof (cases "DirtyInstancer \<in> bits")
  case True
  with assms obtain ts where "r' = r\<lparr>instancesTransforms := ts\<rparr>" "c = False" "bits' = bits - {DirtyInstancer}"
    by (auto simp: syncInstancer_def Let_def split: Option.bind_splits)
  then show ?thesis by simp
next
  case False
  with assms show ?thesis by (simp add: syncInstancer_def)
qed

lemma syncInstances_Some:
  assumes "syncInstances mc cc matc tc ov nv r w = Some (r', w')"
  shows "material r' = material r \<and> mesh r' = mesh r \<and> transform r' = transform r
    \<and> instancesTransforms r' = instancesTransforms r \<and> visible r' = visible r"
proof (cases "mc \<or> cc \<or> matc")
  case True
  with assms obtain hs where "r' = r\<lparr>instances := hs\<rparr>"
    by (auto simp: syncInstances_def Let_def split_def)
  then show ?thesis by simp
next
  case False
  with assms have "r' = r"
    by (auto simp: syncInstances_def split: Option.bind_splits)
  then show ?thesis by simp
qed


lemma Sync_after_points_material:
  assumes "Sync_after_points host renderParam mc r bits w = Some (r', bits', w')"
    and "DirtyMaterialId \<in> bits"
  shows "material r' =
           (if GetMaterialId host = [] then defaultMaterial renderParam
            else case GetSprim host (GetMaterialId host) of Some handle \<Rightarrow> handle | None \<Rightarrow> material r)
         \<and> DirtyMaterialId \<notin> bits'"
proof -
  define r1 where "r1 = (if DirtyVisibility \<in> bits then r\<lparr>visible := GetVisible host\<rparr> else r)"
  define r2 where "r2 =
    (if GetMaterialId host = [] then r1\<lparr>material := defaultMaterial renderParam\<rparr>
     else (case GetSprim host (GetMaterialId host) of Some handle \<Rightarrow> r1\<lparr>material := handle\<rparr> | None \<Rightarrow> r1))"
  define bits2 where "bits2 = bits - {DirtyVisibility} - {DirtyMaterialId}"
  define r3 where "r3 = (if DirtyTransform \<in> bits2 then r2\<lparr>transform := GetTransform host\<rparr> else r2)"
  define bits3 where "bits3 = bits2 - {DirtyTransform}"
  have m: "material r3 =
           (if GetMaterialId host = [] then defaultMaterial renderParam
            else case GetSprim host (GetMaterialId host) of Some handle \<Rightarrow> handle | None \<Rightarrow> material r)"
    by (simp add: r3_def r2_def r1_def split: option.split)
  have b: "DirtyMaterialId \<notin> bits3"
    by (simp add: bits3_def bits2_def)
  have eq: "Sync_after_points host renderParam mc r bits w =
     do {
       (instancer_count_changed, r4, bits4) \<leftarrow> syncInstancer host r3 bits3;
       (r5, w5) \<leftarrow> syncInstances mc instancer_count_changed True
                     (DirtyTransform \<in> bits2 \<or> DirtyInstancer \<in> bits2) (visible r) (visible r1) r4 w;
       Some (r5, bits4,
             if \<not> IsClean bits4 then TF_CODING_ERROR (MeshDirtyBitsIgnored bits4) w5 else w5)
     }"
    using assms(2)
    by (cases "DirtyVisibility \<in> bits"; cases "DirtyTransform \<in> bits")
       (simp_all add: Sync_after_points_def Let_def r1_def r2_def r3_def bits2_def bits3_def
          Diff_insert_absorb insert_absorb cong: option.case_cong)
  from assms(1) [unfolded eq] obtain c r4 bits4 r5 w5 where
    s1: "syncInstancer host r3 bits3 = Some (c, r4, bits4)" and
    s2: "syncInstances mc c True (DirtyTransform \<in> bits2 \<or> DirtyInstancer \<in> bits2)
           (visible r) (visible r1) r4 w = Some (r5, w5)" and
    s3: "r' = r5" "bits' = bits4"
    by (auto split: Option.bind_splits)
  from syncInstancer_Some [OF s1] syncInstances_Some [OF s2] m b s3
  show ?thesis by auto
qed

text \<open>
  C5, amended. In a sync call with the material binding bit set that is not abandoned at
  the empty-points check (and has defined behaviour), \<open>_material\<close> becomes the default
  material of the render param when the mesh has no binding and the handle of the bound
  material prim when the render index has it; when the bound material prim is not there
  yet, \<open>_material\<close> keeps the value it had (the default material on a new record, by the
  constructor). The material binding bit is cleared.
\<close>

theorem Sync_material_binding:
  assumes "DirtyMaterialId \<in> dirtyBits"
    and "Sync host renderParam r dirtyBits w = Some (r', dirtyBits', w')"
    and "\<not> (DirtyPoints \<in> dirtyBits \<and> indexedPoints_of host = Some [])"
  shows "material r' =
           (if GetMaterialId host = [] then defaultMaterial renderParam
            else case GetSprim host (GetMaterialId host) of Some handle \<Rightarrow> handle | None \<Rightarrow> material r)
         \<and> DirtyMaterialId \<notin> dirtyBits'"
proof (cases "DirtyPoints \<in> dirtyBits")
  case False
  with assms(2) have "Sync_after_points host renderParam False r dirtyBits w = Some (r', dirtyBits', w')"
    by (simp add: Sync_def)
  from Sync_after_points_material [OF this assms(1)] show ?thesis .
next
  case True
  with assms(2,3) obtain h w3 where
    "Sync_after_points host renderParam True (r\<lparr>mesh := h\<rparr>) (dirtyBits - {DirtyPoints}) w3
       = Some (r', dirtyBits', w')"
    by (auto simp: Sync_def Let_def split_def split: Option.bind_splits if_splits)
  from Sync_after_points_material [OF this] assms(1) show ?thesis by (simp split: option.split)
qed

theorem Sync_material_binding_witness:
  "DirtyMaterialId \<in> {DirtyMaterialId}
   \<and> Sync (example_bound ''/matB'') example_renderParam example_mesh_bound {DirtyMaterialId} example_world =
       Some (example_mesh_bound\<lparr>instances := [3, 4]\<rparr>, {},
             example_world\<lparr>calls :=
               [DestroyInstance 5, DestroyInstance 6,
                CreateInstance (Mat3x4 (F32x4 1 0 0 0) (F32x4 0 1 0 0) (F32x4 0 0 1 0)) 1 7 True,
                CreateInstance (Mat3x4 (F32x4 3 0 0 0) (F32x4 0 3 0 0) (F32x4 0 0 3 0)) 1 7 True]\<rparr>)
   \<and> \<not> (DirtyPoints \<in> {DirtyMaterialId} \<and> indexedPoints_of (example_bound ''/matB'') = Some [])
   \<and> material (example_mesh_bound\<lparr>instances := [3, 4]\<rparr>) = 7
   \<and> GetMaterialId (example_bound ''/matB'') \<noteq> []
   \<and> GetSprim (example_bound ''/matB'') (GetMaterialId (example_bound ''/matB'')) = None
   \<and> material example_mesh_bound = 7
   \<and> DirtyMaterialId \<notin> {}"
proof -
  have h1: "DirtyMaterialId \<in> {DirtyMaterialId}" by simp
  have h2: "Sync (example_bound ''/matB'') example_renderParam example_mesh_bound {DirtyMaterialId} example_world =
       Some (example_mesh_bound\<lparr>instances := [3, 4]\<rparr>, {},
             example_world\<lparr>calls :=
               [DestroyInstance 5, DestroyInstance 6,
                CreateInstance (Mat3x4 (F32x4 1 0 0 0) (F32x4 0 1 0 0) (F32x4 0 0 1 0)) 1 7 True,
                CreateInstance (Mat3x4 (F32x4 3 0 0 0) (F32x4 0 3 0 0) (F32x4 0 0 3 0)) 1 7 True]\<rparr>)"
    by (simp add: example_defs Sync_defs)
  have h3: "\<not> (DirtyPoints \<in> {DirtyMaterialId} \<and> indexedPoints_of (example_bound ''/matB'') = Some [])"
    by simp
  show ?thesis
    using h1 h2 h3 Sync_material_binding [OF h1 h2 h3]
    by (simp add: example_defs)
qed

text \<open>
  C5, as stated, fails where the bound material prim is not realized: the code leaves
  \<open>_material\<close> alone (line 197 has no \<open>else\<close>), so a mesh bound to \<open>/matA\<close> in its first
  sync and rebound to the unrealized \<open>/matB\<close> in its second keeps the handle of
  \<open>/matA\<close>, which is not the default material. And a sync abandoned at the
  empty-points check (line 141) returns with the material binding bit still set.
\<close>

theorem Sync_unrealized_material_keeps_handle:
  "map_option (\<lambda>(r, w). material r = defaultMaterial example_renderParam)
     (Sync_all example_renderParam
        [(example_bound ''/matA'', GetInitialDirtyBitsMask), (example_bound ''/matB'', {DirtyMaterialId})]
        example_mesh example_world) = Some False
   \<and> map_option (\<lambda>(r, bits, w). DirtyMaterialId \<in> bits)
       (Sync example_pointless example_renderParam example_mesh GetInitialDirtyBitsMask example_world)
     = Some True"
  by code_simp

text \<open>
  C1 fails on the code. The record holds two instances and only the instancer bit is
  set. When the instancer now has three instances, nothing is destroyed or created: the
  update loop of lines 254-262 runs over three transforms and reads \<open>_instances[2]\<close>,
  past the end of the vector. When the instancer now has one instance, the call returns
  with both old handles kept and a single \<open>SetInstanceTransform\<close> issued.
\<close>

theorem Sync_instancer_count_change_not_rebuilt:
  "Sync (example_instanced 3) example_renderParam example_mesh2 {DirtyInstancer} example_world = None
   \<and> map_option (\<lambda>(r, bits, w). (instances r, calls w))
       (Sync (example_instanced 1) example_renderParam example_mesh2 {DirtyInstancer} example_world)
     = Some ([5, 6], [SetInstanceTransform 5 (Mat3x4 (F32x4 1 0 0 0) (F32x4 0 1 0 0) (F32x4 0 0 1 0))])"
  by code_simp

text \<open>
  C4 fails on the code. A new record is synced three times: first without an instancer,
  then with new points under an instancer of three instances (a rebuild), then with the
  instancer bit alone and two instances. The third call returns with three instance
  handles and two stored instance transforms.
\<close>

theorem Sync_all_instance_count_mismatch:
  "map_option (\<lambda>(r, w). (length (instances r), length (instancesTransforms r)))
     (Sync_all example_renderParam
        [(example_host, GetInitialDirtyBitsMask),
         (example_instanced 3, {DirtyPoints, DirtyInstancer}),
         (example_instanced 2, {DirtyInstancer})]
        example_mesh example_world) = Some (3, 2)"
  by code_simp

text \<open>
  C7 fails on the code. A new record is synced alone, then with new points under two
  instances (handles 5 and 6), then with the instancer bit alone under one instance:
  by the shadowed flag of line 231 both handles stay while one transform is stored.
  The fourth sync has the transform bit alone: the loop of lines 254-262 runs over the
  stored transforms, so handle 5 receives the new transform and handle 6 receives
  nothing.
\<close>

theorem Sync_transform_only_skips_stale_handle:
  "map_option (\<lambda>(r, w). (instances r, length (instancesTransforms r), drop 7 (calls w)))
     (Sync_all example_renderParam example_steps_transform example_mesh example_world)
   = Some ([5, 6], 1,
           [SetInstanceTransform 5 (Mat3x4 (F32x4 1 0 0 5) (F32x4 2 1 0 6) (F32x4 0 0 1 7))])"
  by code_simp

section \<open>Properties of the material sync\<close>

lemma rgbToRgba_from_unfold:
  "rgbToRgba_from n s d data =
     (if n = 0 then Some data
      else case for_each [0..<s] (\<lambda>j b. assign b ((d * (n - 1) + j) mod 2 ^ 64) ((s * (n - 1) + j) mod 2 ^ 64)) data of
             None \<Rightarrow> None
           | Some b \<Rightarrow> rgbToRgba_from (n - 1) s d b)"
  by (cases n) (simp_all cong: option.case_cong)

lemma upt_0_3: "[0..<3] = [0, 1, 2::nat]"
  by code_simp

text \<open>
  C3 fails on the code. Two pixels of three bytes in a buffer of eight: the loop of
  lines 69-73 starts below the last pixel, so pixel 1 is never moved and the buffer is
  returned as it was; offset 4 holds 21, 22, 0 and not 20, 21, 22. Four pixels in a
  buffer of sixteen: pixel 3 is not moved, and pixels 2 and 1 are copied upwards byte
  by byte over their own unread bytes, giving 30, 31, 30 and 20, 20, 20.
\<close>

theorem rgbToRgba_loses_pixels:
  "rgbToRgba [10, 11, 12, 20, 21, 22, 0, 0] 2 3 4 = Some [10, 11, 12, 20, 21, 22, 0, 0]
   \<and> rgbToRgba [10, 11, 12, 20, 21, 22, 30, 31, 32, 40, 41, 42, 0, 0, 0, 0] 4 3 4
       = Some [10, 11, 12, 20, 20, 20, 20, 31, 30, 31, 30, 42, 0, 0, 0, 0]"
  by (simp add: rgbToRgba_def rgbToRgba_from_unfold upt_0_3 assign_def)

text \<open>
  C10. With the params bit set, when the resource holds no network map, or the network
  has no \<open>surface\<close> terminal, or the terminal node is not a \<open>UsdPreviewSurface\<close>, the
  sync returns the dirty bits as they were (the params bit among them), issues no
  renderer call, and reports exactly one coding error, which names the cause and is not
  the report of ignored dirty bits.
\<close>

theorem Material_Sync_early_return:
  assumes "DirtyParams \<in> dirtyBits"
    and "GetMaterialResource host = None
         \<or> (\<exists>network. GetMaterialResource host = Some network
               \<and> map_of (terminals network) ''surface'' = None)
         \<or> (\<exists>network connection node. GetMaterialResource host = Some network
               \<and> map_of (terminals network) ''surface'' = Some connection
               \<and> map_of (nodes network) (upstreamNode connection) = Some node
               \<and> nodeTypeId node \<noteq> ''UsdPreviewSurface'')"
  shows "\<exists>d. Material_Sync host handle dirtyBits w = Some (dirtyBits, TF_CODING_ERROR d w)
             \<and> (d = UnknownResourceType \<or> d = NoSurfaceConnection \<or> (\<exists>t. d = UnknownNode t))
             \<and> calls (TF_CODING_ERROR d w) = calls w
             \<and> codingErrors (TF_CODING_ERROR d w) = codingErrors w @ [d]"
  using assms by (auto simp: Material_Sync_def)

theorem Material_Sync_early_return_witness:
  "DirtyParams \<in> {DirtyParams}
   \<and> GetMaterialResource (example_material_host None) = None
   \<and> Material_Sync (example_material_host None) 9 {DirtyParams} example_world =
         Some ({DirtyParams}, TF_CODING_ERROR UnknownResourceType example_world)
   \<and> GetMaterialResource (example_material_host (Some (example_network ''volume'' ''UsdPreviewSurface'')))
         = Some (example_network ''volume'' ''UsdPreviewSurface'')
   \<and> map_of (terminals (example_network ''volume'' ''UsdPreviewSurface'')) ''surface'' = None
   \<and> Material_Sync (example_material_host (Some (example_network ''volume'' ''UsdPreviewSurface'')))
         9 {DirtyParams} example_world =
         Some ({DirtyParams}, TF_CODING_ERROR NoSurfaceConnection example_world)
   \<and> GetMaterialResource (example_material_host (Some (example_network ''surface'' ''MaterialX'')))
         = Some (example_network ''surface'' ''MaterialX'')
   \<and> map_of (terminals (example_network ''surface'' ''MaterialX'')) ''surface''
         = Some \<lparr>upstreamNode = ''/mat/surface'', upstreamOutputName = ''surface''\<rparr>
   \<and> map_of (nodes (example_network ''surface'' ''MaterialX'')) ''/mat/surface''
         = Some (example_surface_node ''MaterialX'')
   \<and> nodeTypeId (example_surface_node ''MaterialX'') \<noteq> ''UsdPreviewSurface''
   \<and> Material_Sync (example_material_host (Some (example_network ''surface'' ''MaterialX'')))
         9 {DirtyParams} example_world =
         Some ({DirtyParams}, TF_CODING_ERROR (UnknownNode ''MaterialX'') example_world)"
proof -
  have d: "DirtyParams \<in> {DirtyParams}" by simp
  have a: "GetMaterialResource (example_material_host None) = None"
    by (simp add: material_example_defs)
  have b: "GetMaterialResource (example_material_host (Some (example_network ''volume'' ''UsdPreviewSurface'')))
             = Some (example_network ''volume'' ''UsdPreviewSurface'')"
    "map_of (terminals (example_network ''volume'' ''UsdPreviewSurface'')) ''surface'' = None"
    by (simp_all add: material_example_defs)
  have c: "GetMaterialResource (example_material_host (Some (example_network ''surface'' ''MaterialX'')))
             = Some (example_network ''surface'' ''MaterialX'')"
    "map_of (terminals (example_network ''surface'' ''MaterialX'')) ''surface''
       = Some \<lparr>upstreamNode = ''/mat/surface'', upstreamOutputName = ''surface''\<rparr>"
    "map_of (nodes (example_network ''surface'' ''MaterialX'')) ''/mat/surface''
       = Some (example_surface_node ''MaterialX'')"
    "nodeTypeId (example_surface_node ''MaterialX'') \<noteq> ''UsdPreviewSurface''"
    by (simp_all add: material_example_defs)
  have A: "GetMaterialResource (example_material_host None) = None \<or>
      (\<exists>network. GetMaterialResource (example_material_host None) = Some network
          \<and> map_of (terminals network) ''surface'' = None) \<or>
      (\<exists>network connection node. GetMaterialResource (example_material_host None) = Some network
          \<and> map_of (terminals network) ''surface'' = Some connection
          \<and> map_of (nodes network) (upstreamNode connection) = Some node
          \<and> nodeTypeId node \<noteq> ''UsdPreviewSurface'')"
    using a by simp
  have B: "GetMaterialResource (example_material_host (Some (example_network ''volume'' ''UsdPreviewSurface''))) = None \<or>
      (\<exists>network. GetMaterialResource (example_material_host (Some (example_network ''volume'' ''UsdPreviewSurface''))) = Some network
          \<and> map_of (terminals network) ''surface'' = None) \<or>
      (\<exists>network connection node. GetMaterialResource (example_material_host (Some (example_network ''volume'' ''UsdPreviewSurface''))) = Some network
          \<and> map_of (terminals network) ''surface'' = Some connection
          \<and> map_of (nodes network) (upstreamNode connection) = Some node
          \<and> nodeTypeId node \<noteq> ''UsdPreviewSurface'')"
    using b by simp
  have C: "GetMaterialResource (example_material_host (Some (example_network ''surface'' ''MaterialX''))) = None \<or>
      (\<exists>network. GetMaterialResource (example_material_host (Some (example_network ''surface'' ''MaterialX''))) = Some network
          \<and> map_of (terminals network) ''surface'' = None) \<or>
      (\<exists>network connection node. GetMaterialResource (example_material_host (Some (example_network ''surface'' ''MaterialX''))) = Some network
          \<and> map_of (terminals network) ''surface'' = Some connection
          \<and> map_of (nodes network) (upstreamNode connection) = Some node
          \<and> nodeTypeId node \<noteq> ''UsdPreviewSurface'')"
    using c by simp
  have e: "Material_Sync (example_material_host None) 9 {DirtyParams} example_world =
         Some ({DirtyParams}, TF_CODING_ERROR UnknownResourceType example_world)"
    "Material_Sync (example_material_host (Some (example_network ''volume'' ''UsdPreviewSurface'')))
         9 {DirtyParams} example_world =
         Some ({DirtyParams}, TF_CODING_ERROR NoSurfaceConnection example_world)"
    "Material_Sync (example_material_host (Some (example_network ''surface'' ''MaterialX'')))
         9 {DirtyParams} example_world =
         Some ({DirtyParams}, TF_CODING_ERROR (UnknownNode ''MaterialX'') example_world)"
    by (simp_all add: Material_Sync_def material_example_defs)
  show ?thesis
    using Material_Sync_early_return [OF d A, of 9 example_world]
      Material_Sync_early_return [OF d B, of 9 example_world]
      Material_Sync_early_return [OF d C, of 9 example_world]
      a b c e
    by simp
qed

lemma syncInputs_chain:
  assumes "\<forall>inputName \<in> set names. \<forall>v. syncInput host network node sdrNode handle inputName v \<noteq> None"
  shows "\<exists>ws. length ws = Suc (length names) \<and> ws ! 0 = w
           \<and> (\<forall>i < length names.
                 syncInput host network node sdrNode handle (names ! i) (ws ! i) = Some (ws ! Suc i))
           \<and> syncInputs host network node sdrNode handle names w = Some (last ws)"
  using assms
proof (induction names arbitrary: w)
  case Nil
  show ?case by (rule exI [of _ "[w]"]) simp
next
  case (Cons n names)
  from Cons.prems obtain w1 where w1: "syncInput host network node sdrNode handle n w = Some w1"
    by fastforce
  from Cons.prems have "\<forall>inputName \<in> set names. \<forall>v. syncInput host network node sdrNode handle inputName v \<noteq> None"
    by simp
  from Cons.IH [OF this, of w1] obtain ws where ws:
    "length ws = Suc (length names)" "ws ! 0 = w1"
    "\<forall>i < length names. syncInput host network node sdrNode handle (names ! i) (ws ! i) = Some (ws ! Suc i)"
    "syncInputs host network node sdrNode handle names w1 = Some (last ws)"
    by blast
  have ne: "ws \<noteq> []" using ws(1) by auto
  have step: "syncInput host network node sdrNode handle ((n # names) ! i) ((w # ws) ! i)
                = Some ((w # ws) ! Suc i)" if "i < length (n # names)" for i
  proof (cases i)
    case 0
    then show ?thesis using w1 ws(2) by simp
  next
    case (Suc j)
    then show ?thesis using that ws(3) by simp
  qed
  show ?case
    apply (rule exI [of _ "w # ws"])
    using ws(1,4) w1 ne step by simp
qed

text \<open>The three ways an input fails: each reports and returns, with no renderer call.\<close>

lemma syncInput_unknown_role:
  assumes "map_of (inputConnections node) inputName = Some (con # cons)"
    and "map_of (nodes network) (upstreamNode con) = Some upstream"
    and "GetShaderNodeByIdentifier host (nodeTypeId upstream) = Some upstreamSdr"
    and "GetRole upstreamSdr \<noteq> ''texture''"
  shows "syncInput host network node sdrNode handle inputName w =
           Some (TF_CODING_ERROR (UnknownConnection inputName (GetRole upstreamSdr)) w)"
  using assms by (simp add: syncInput_def)

lemma makeTexture_unsupported_value:
  assumes "v = VtEmpty \<or> v = VtVec3fArray xs \<or> v = VtVec2fArray ys \<or> v = VtTfToken t \<or> v = VtOther s"
  shows "makeTexture hio images v swizzle colorSpace dst debug_name w =
           Some (None, TF_CODING_ERROR UnknownValueType w)"
  using assms by (auto simp: makeTexture_def)

lemma makeTexture_unsupported_format:
  assumes "images path = Some img"
    and "convert_image hio img swizzle dst = Some (data, format1)"
    and "usdFormatToMsneFormat (HioGetFormat hio (HioGetComponentCount hio format1)
           (HioGetHioType hio format1) (colorSpace = ''sRGB'')) = None"
  shows "makeTexture hio images (VtSdfAssetPath path) swizzle colorSpace dst debug_name w =
           Some (None, TF_CODING_ERROR UnknownFormat w)"
  using assms by (simp add: makeTexture_def)

lemma SetTextureBasedOnValueAndName_no_texture:
  assumes "name \<noteq> ''ior''" and "name \<noteq> ''useSpecularWorkflow''"
    and "makeTexture hio images v swizzle colorSpace name (debug_name @ '' '' @ name) w = Some (None, w1)"
  shows "SetTextureBasedOnValueAndName hio images handle name v swizzle colorSpace debug_name w =
           Some (False, TF_CODING_ERROR (CouldNotParseTexture (debug_name @ '' '' @ name)) w1)"
  using assms by (simp add: SetTextureBasedOnValueAndName_def)

text \<open>
  With the params bit set and a \<open>UsdPreviewSurface\<close> terminal node, and no input
  whose processing has undefined behaviour, there is a chain of worlds, one step per
  declared input name in the declared order, each step being the loop body run once on
  that name from the world the previous name left; the sync returns after the last
  step with the params bit cleared.
\<close>

theorem Material_Sync_every_input:
  assumes "DirtyParams \<in> dirtyBits"
    and "GetMaterialResource host = Some network"
    and "map_of (terminals network) ''surface'' = Some connection"
    and "map_of (nodes network) (upstreamNode connection) = Some node"
    and "nodeTypeId node = ''UsdPreviewSurface''"
    and "GetShaderNodeByIdentifier host ''UsdPreviewSurface'' = Some sdrNode"
    and "\<forall>inputName \<in> set (GetInputNames sdrNode).
           \<forall>v. syncInput host network node sdrNode handle inputName v \<noteq> None"
  shows "\<exists>ws. length ws = Suc (length (GetInputNames sdrNode)) \<and> ws ! 0 = w
           \<and> (\<forall>i < length (GetInputNames sdrNode).
                 syncInput host network node sdrNode handle (GetInputNames sdrNode ! i) (ws ! i)
                   = Some (ws ! Suc i))
           \<and> Material_Sync host handle dirtyBits w =
               Some (dirtyBits - {DirtyParams}, report_leftover (dirtyBits - {DirtyParams}) (last ws))"
proof -
  from syncInputs_chain [OF assms(7), of w] obtain ws where ws:
    "length ws = Suc (length (GetInputNames sdrNode))" "ws ! 0 = w"
    "\<forall>i < length (GetInputNames sdrNode).
       syncInput host network node sdrNode handle (GetInputNames sdrNode ! i) (ws ! i) = Some (ws ! Suc i)"
    "syncInputs host network node sdrNode handle (GetInputNames sdrNode) w = Some (last ws)"
    by blast
  have "Material_Sync host handle dirtyBits w =
          Some (dirtyBits - {DirtyParams}, report_leftover (dirtyBits - {DirtyParams}) (last ws))"
    using assms(1-6) ws(4) by (simp add: Material_Sync_def)
  with ws(1-3) show ?thesis by blast
qed

lemma example_inputs_defined:
  "\<forall>inputName \<in> set (GetInputNames example_sdr).
     \<forall>v. syncInput example_surface (example_network ''surface'' ''UsdPreviewSurface'')
            (example_surface_node ''UsdPreviewSurface'') example_sdr 9 inputName v \<noteq> None"
  by (simp add: material_example_defs Material_Sync_defs split_def Let_def)

theorem Material_Sync_every_input_witness:
  "DirtyParams \<in> {DirtyParams}
   \<and> GetMaterialResource example_surface = Some (example_network ''surface'' ''UsdPreviewSurface'')
   \<and> map_of (terminals (example_network ''surface'' ''UsdPreviewSurface'')) ''surface''
         = Some \<lparr>upstreamNode = ''/mat/surface'', upstreamOutputName = ''surface''\<rparr>
   \<and> map_of (nodes (example_network ''surface'' ''UsdPreviewSurface'')) ''/mat/surface''
         = Some (example_surface_node ''UsdPreviewSurface'')
   \<and> nodeTypeId (example_surface_node ''UsdPreviewSurface'') = ''UsdPreviewSurface''
   \<and> GetShaderNodeByIdentifier example_surface ''UsdPreviewSurface'' = Some example_sdr
   \<and> \<not> (\<exists>inputName \<in> set (GetInputNames example_sdr).
          \<exists>v. syncInput example_surface (example_network ''surface'' ''UsdPreviewSurface'')
                 (example_surface_node ''UsdPreviewSurface'') example_sdr 9 inputName v = None)
   \<and> (\<exists>ws. length ws = Suc (length (GetInputNames example_sdr)) \<and> ws ! 0 = example_world
          \<and> (\<forall>i < length (GetInputNames example_sdr).
                syncInput example_surface (example_network ''surface'' ''UsdPreviewSurface'')
                  (example_surface_node ''UsdPreviewSurface'') example_sdr 9
                  (GetInputNames example_sdr ! i) (ws ! i) = Some (ws ! Suc i))
          \<and> Material_Sync example_surface 9 {DirtyParams} example_world =
               Some ({}, report_leftover {} (last ws)))
   \<and> map_option (\<lambda>(bits, w). (calls w, codingErrors w))
         (Material_Sync example_surface 9 {DirtyParams} example_world) =
       Some ([CreateSolidTexture3 (F32x3 0 0 0) ''/mat default emissiveColor f32x3'',
              SetMaterialEmissive 9 1,
              CreateSolidTexture1 3 ''/mat parameter roughness float'',
              SetMaterialRoughness 9 3,
              SetMaterialIOR 9 2],
             [UnknownFormat, CouldNotParseTexture ''/mat diffuseColor'',
              UnknownValueType, CouldNotParseTexture ''/mat parameter metallic'',
              UnknownConnection ''normal'' ''math''])"
proof -
  have h1: "DirtyParams \<in> {DirtyParams}" by simp
  have h2: "GetMaterialResource example_surface = Some (example_network ''surface'' ''UsdPreviewSurface'')"
    by (simp add: material_example_defs)
  have h3: "map_of (terminals (example_network ''surface'' ''UsdPreviewSurface'')) ''surface''
         = Some \<lparr>upstreamNode = ''/mat/surface'', upstreamOutputName = ''surface''\<rparr>"
    by (simp add: material_example_defs)
  have h4: "map_of (nodes (example_network ''surface'' ''UsdPreviewSurface''))
              (upstreamNode \<lparr>upstreamNode = ''/mat/surface'', upstreamOutputName = ''surface''\<rparr>)
         = Some (example_surface_node ''UsdPreviewSurface'')"
    by (simp add: material_example_defs)
  have h5: "nodeTypeId (example_surface_node ''UsdPreviewSurface'') = ''UsdPreviewSurface''"
    by (simp add: material_example_defs)
  have h6: "GetShaderNodeByIdentifier example_surface ''UsdPreviewSurface'' = Some example_sdr"
    by (simp add: material_example_defs)
  have h7: "\<forall>inputName \<in> set (GetInputNames example_sdr).
     \<forall>v. syncInput example_surface (example_network ''surface'' ''UsdPreviewSurface'')
            (example_surface_node ''UsdPreviewSurface'') example_sdr 9 inputName v \<noteq> None"
    by (rule example_inputs_defined)
  have run: "map_option (\<lambda>(bits, w). (calls w, codingErrors w))
         (Material_Sync example_surface 9 {DirtyParams} example_world) =
       Some ([CreateSolidTexture3 (F32x3 0 0 0) ''/mat default emissiveColor f32x3'',
              SetMaterialEmissive 9 1,
              CreateSolidTexture1 3 ''/mat parameter roughness float'',
              SetMaterialRoughness 9 3,
              SetMaterialIOR 9 2],
             [UnknownFormat, CouldNotParseTexture ''/mat diffuseColor'',
              UnknownValueType, CouldNotParseTexture ''/mat parameter metallic'',
              UnknownConnection ''normal'' ''math''])"
    by (simp add: material_example_defs Material_Sync_defs split_def Let_def)
  show ?thesis
    using h1 h2 h3 h4 h5 h6 h7 run
      Material_Sync_every_input [OF h1 h2 h3 h4 h5 h6 h7, of example_world]
    by simp
qed

text \<open>
  C8 fails on the code. In the example material the \<open>diffuseColor\<close> input, the first
  of seven, reads a texture. When the file of the texture cannot be opened,
  \<open>OpenForReading\<close> returns the null pointer and line 79 dereferences it; when the
  type of the texture node is not in the shader registry, line 229 dereferences the null
  node; when the texture node has no \<open>sourceColorSpace\<close> parameter, line 232
  dereferences the end iterator. In each case the sync does not get to the six inputs
  that follow.
\<close>

theorem Material_Sync_stops_at_missing_object:
  "Option.is_none (Material_Sync
      (example_material_host (Some (example_texture_network ''UsdUVTexture''
         [(''file'', VtSdfAssetPath ''missing.png''), (''sourceColorSpace'', VtTfToken ''raw'')])))
      9 {DirtyParams} example_world)
   \<and> Option.is_none (Material_Sync
      (example_material_host (Some (example_texture_network ''Unregistered''
         [(''file'', VtSdfAssetPath ''wood.exr''), (''sourceColorSpace'', VtTfToken ''raw'')])))
      9 {DirtyParams} example_world)
   \<and> Option.is_none (Material_Sync
      (example_material_host (Some (example_texture_network ''UsdUVTexture''
         [(''file'', VtSdfAssetPath ''wood.exr'')])))
      9 {DirtyParams} example_world)"
  by code_simp

section \<open>Which handles are released\<close>

lemma destroyed_instances_append:
  "destroyed_instances (xs @ ys) = destroyed_instances xs @ destroyed_instances ys"
  by (induction xs rule: destroyed_instances.induct) simp_all

lemma created_instances_append:
  "created_instances answer before (xs @ ys) =
     created_instances answer before xs \<union> created_instances answer (before @ xs) ys"
  by (induction answer before xs rule: created_instances.induct) simp_all

lemma destroyed_instances_simps2 [simp]:
  "destroyed_instances (map DestroyInstance hs) = hs"
  "destroyed_instances (map (\<lambda>it. CreateInstance (f it) me ma vis) its) = []"
  "destroyed_instances (map (\<lambda>(h, it). SetInstanceTransform h (g it)) zs) = []"
  "destroyed_instances (map (\<lambda>h. SetInstanceVisibility h vis) hs) = []"
     apply (induction hs) apply simp_all
    apply (induction its) apply simp_all
   apply (induction zs) apply (simp_all add: split_def)
  done

lemma created_instances_DestroyInstance [simp]:
  "created_instances answer before (map DestroyInstance hs) = {}"
  by (induction hs arbitrary: before) simp_all

lemma createInstances_snd:
  "snd (createInstances t me ma vis its w) =
     w\<lparr>calls := calls w @ map (\<lambda>it. CreateInstance (toMat3x4 (GfMatrix4f_times t it)) me ma vis) its\<rparr>"
  by (induction its arbitrary: w) (simp_all add: split_def Let_def create_def issue_def)

lemma createInstances_fst:
  "set (fst (createInstances t me ma vis its w)) =
     created_instances (handle_of w) (calls w)
       (map (\<lambda>it. CreateInstance (toMat3x4 (GfMatrix4f_times t it)) me ma vis) its)"
  by (induction its arbitrary: w) (simp_all add: split_def Let_def create_def)

lemma setInstanceTransforms_Some:
  assumes "setInstanceTransforms t its hs w = Some w1"
  shows "w1 = w\<lparr>calls := calls w @
           map (\<lambda>(h, it). SetInstanceTransform h (toMat3x4 (GfMatrix4f_times t it))) (zip hs its)\<rparr>"
proof (cases "length its \<le> length hs")
  case True
  from setInstanceTransforms_eq [OF this, of t w] assms show ?thesis by simp
next
  case False
  then have "length hs < length its" by simp
  from setInstanceTransforms_None [OF this, of t w] assms show ?thesis by simp
qed

lemma syncInstances_step:
  assumes "syncInstances mc cc matc tc ov nv r w = Some (r', w')"
  shows "\<exists>new. calls w' = calls w @ new \<and> handle_of w' = handle_of w
           \<and> set (destroyed_instances new) \<subseteq> set (instances r)
           \<and> set (instances r') \<subseteq> set (instances r) \<union> created_instances (handle_of w) (calls w) new"
proof (cases "mc \<or> cc \<or> matc")
  case True
  let ?D = "map DestroyInstance (instances r)"
  let ?C = "map (\<lambda>it. CreateInstance (toMat3x4 (GfMatrix4f_times (transform r) it)) (mesh r)
                  (material r) nv) (instancesTransforms r)"
  let ?w1 = "w\<lparr>calls := calls w @ ?D\<rparr>"
  from True assms have r': "r' = r\<lparr>instances := fst (createInstances (transform r) (mesh r) (material r) nv
                                          (instancesTransforms r) ?w1)\<rparr>"
    and w': "w' = snd (createInstances (transform r) (mesh r) (material r) nv (instancesTransforms r) ?w1)"
    by (auto simp: syncInstances_def Let_def split_def destroyInstances_eq)
  have c: "calls w' = calls w @ (?D @ ?C)" "handle_of w' = handle_of w"
    by (simp_all add: w' createInstances_snd)
  have i: "set (instances r') = created_instances (handle_of w) (calls w @ ?D) ?C"
    by (simp add: r' createInstances_fst)
  show ?thesis
    apply (rule exI [of _ "?D @ ?C"])
    using c i by (simp add: destroyed_instances_append created_instances_append)
next
  case False
  with assms obtain w1 where
    w1: "(if tc then setInstanceTransforms (transform r) (instancesTransforms r) (instances r) w
          else Some w) = Some w1"
    and r': "r' = r"
    and w': "w' = (if ov \<noteq> nv then setInstanceVisibilities nv (instances r) w1 else w1)"
    by (auto simp: syncInstances_def split: Option.bind_splits)
  let ?T = "if tc then map (\<lambda>(h, it). SetInstanceTransform h
                  (toMat3x4 (GfMatrix4f_times (transform r) it))) (zip (instances r) (instancesTransforms r))
            else []"
  let ?V = "if ov \<noteq> nv then map (\<lambda>h. SetInstanceVisibility h nv) (instances r) else []"
  have w1': "w1 = w\<lparr>calls := calls w @ ?T\<rparr>"
    using w1 by (auto split: if_splits dest: setInstanceTransforms_Some)
  have c: "calls w' = calls w @ (?T @ ?V)" "handle_of w' = handle_of w"
    by (simp_all add: w' w1' setInstanceVisibilities_eq)
  have d: "destroyed_instances (?T @ ?V) = []"
    by (simp add: destroyed_instances_append)
  show ?thesis
    apply (rule exI [of _ "?T @ ?V"])
    using c d r' by simp
qed


lemma Sync_after_points_shape:
  assumes "Sync_after_points host renderParam mc r bits w = Some (r', bits', w')"
  shows "\<exists>r4 c matc tc ov nv w5.
           instances r4 = instances r
         \<and> syncInstances mc c matc tc ov nv r4 w = Some (r', w5)
         \<and> calls w' = calls w5 \<and> handle_of w' = handle_of w5"
proof -
  from assms obtain R3 B3 c r4 bits4 matc tc ov nv r5 w5 where
    a: "syncInstancer host R3 B3 = Some (c, r4, bits4)"
    and b: "syncInstances mc c matc tc ov nv r4 w = Some (r5, w5)"
    and e: "r' = r5"
      "w' = (if \<not> IsClean bits4 then TF_CODING_ERROR (MeshDirtyBitsIgnored bits4) w5 else w5)"
    and i: "instances R3 = instances r"
    unfolding Sync_after_points_def Let_def split_def
    by (auto simp: bind_eq_Some_conv split: if_splits option.splits)
  from syncInstancer_Some [OF a] i have i4: "instances r4 = instances r" by simp
  have "calls w' = calls w5 \<and> handle_of w' = handle_of w5" using e(2) by simp
  with b e(1) i4 show ?thesis by blast
qed

lemma Sync_after_points_step:
  assumes "Sync_after_points host renderParam mc r bits w = Some (r', bits', w')"
  shows "\<exists>new. calls w' = calls w @ new \<and> handle_of w' = handle_of w
           \<and> set (destroyed_instances new) \<subseteq> set (instances r)
           \<and> set (instances r') \<subseteq> set (instances r) \<union> created_instances (handle_of w) (calls w) new"
proof -
  from Sync_after_points_shape [OF assms] obtain r4 c matc tc ov nv w5 where
    i: "instances r4 = instances r"
    and s: "syncInstances mc c matc tc ov nv r4 w = Some (r', w5)"
    and e: "calls w' = calls w5" "handle_of w' = handle_of w5"
    by blast
  from syncInstances_step [OF s] i e show ?thesis by simp
qed


lemma ComputePrimvar_frame:
  assumes "ComputePrimvar holding host indices name w = Some (xs, w1)"
  shows "calls w1 = calls w \<and> handle_of w1 = handle_of w"
  using assms
  by (auto simp: ComputePrimvar_def bind_eq_Some_conv split: option.splits if_splits)

lemma texcoords_of_frame:
  assumes "texcoords_of host indices w = Some (xs, w1)"
  shows "calls w1 = calls w \<and> handle_of w1 = handle_of w"
  using assms ComputePrimvar_frame [of Holding_VtVec2fArray host indices "texcoordName_of host" w xs w1]
  by (auto simp: texcoords_of_def split: if_splits)

lemma Sync_step:
  assumes "Sync host renderParam r bits w = Some (r', bits', w')"
  shows "\<exists>new. calls w' = calls w @ new \<and> handle_of w' = handle_of w
           \<and> set (destroyed_instances new) \<subseteq> set (instances r)
           \<and> set (instances r') \<subseteq> set (instances r) \<union> created_instances (handle_of w) (calls w) new"
proof (cases "DirtyPoints \<in> bits")
  case False
  with assms have "Sync_after_points host renderParam False r bits w = Some (r', bits', w')"
    by (simp add: Sync_def)
  from Sync_after_points_step [OF this] show ?thesis .
next
  case True
  with assms obtain ip where ip: "indexedPoints_of host = Some ip"
    by (auto simp: Sync_def bind_eq_Some_conv)
  show ?thesis
  proof (cases "ip = []")
    case True
    with assms ip \<open>DirtyPoints \<in> bits\<close>
    have "r' = r" "w' = TF_CODING_ERROR EmptyMesh w"
      by (simp_all add: Sync_def)
    then show ?thesis by (intro exI [of _ "[]"]) simp
  next
    case False
    with assms ip \<open>DirtyPoints \<in> bits\<close> obtain points texcoords w1 normals w2 where
      t: "texcoords_of host (ComputeTriangleIndices host) w = Some (texcoords, w1)"
      and n: "ComputePrimvar Holding_VtVec3fArray host (ComputeTriangleIndices host) ''normals'' w1
                = Some (normals, w2)"
      and a: "Sync_after_points host renderParam True
                (r\<lparr>mesh := handle_of w2 (calls w2 @ [CreateMesh points normals texcoords (length points)])\<rparr>)
                (bits - {DirtyPoints})
                (issue (CreateMesh points normals texcoords (length points)) w2) = Some (r', bits', w')"
      by (auto simp: Sync_def bind_eq_Some_conv create_def)
    let ?m = "CreateMesh points normals texcoords (length points)"
    from texcoords_of_frame [OF t] ComputePrimvar_frame [OF n]
    have f: "calls w2 = calls w" "handle_of w2 = handle_of w" by simp_all
    from Sync_after_points_step [OF a] obtain new where new:
      "calls w' = calls (issue ?m w2) @ new" "handle_of w' = handle_of (issue ?m w2)"
      "set (destroyed_instances new) \<subseteq> set (instances r)"
      "set (instances r') \<subseteq> set (instances r)
          \<union> created_instances (handle_of (issue ?m w2)) (calls (issue ?m w2)) new"
      by auto
    show ?thesis
      apply (rule exI [of _ "?m # new"])
      using new f by simp
  qed
qed

lemma Sync_all_steps:
  assumes "Sync_all renderParam steps r w = Some (r', w')"
  shows "\<exists>new. calls w' = calls w @ new \<and> handle_of w' = handle_of w
           \<and> set (destroyed_instances new) \<subseteq> set (instances r) \<union> created_instances (handle_of w) (calls w) new
           \<and> set (instances r') \<subseteq> set (instances r) \<union> created_instances (handle_of w) (calls w) new"
  using assms
proof (induction steps arbitrary: r w)
  case Nil
  then show ?case by (intro exI [of _ "[]"]) simp
next
  case (Cons step steps)
  obtain host bits where step: "step = (host, bits)" by (cases step)
  with Cons.prems obtain r1 bits1 w1 where
    s: "Sync host renderParam r bits w = Some (r1, bits1, w1)"
    and rest: "Sync_all renderParam steps r1 w1 = Some (r', w')"
    by (auto split: option.splits)
  from Sync_step [OF s] obtain new1 where n1:
    "calls w1 = calls w @ new1" "handle_of w1 = handle_of w"
    "set (destroyed_instances new1) \<subseteq> set (instances r)"
    "set (instances r1) \<subseteq> set (instances r) \<union> created_instances (handle_of w) (calls w) new1"
    by blast
  from Cons.IH [OF rest] obtain new2 where n2:
    "calls w' = calls w1 @ new2" "handle_of w' = handle_of w1"
    "set (destroyed_instances new2) \<subseteq> set (instances r1) \<union> created_instances (handle_of w1) (calls w1) new2"
    "set (instances r') \<subseteq> set (instances r1) \<union> created_instances (handle_of w1) (calls w1) new2"
    by blast
  show ?case
    apply (rule exI [of _ "new1 @ new2"])
    using n1 n2 by (auto simp: destroyed_instances_append created_instances_append)
qed


lemma no_release_refl [simp]: "no_release w w"
  by (simp add: no_release_def)

lemma no_release_trans: "no_release w w1 \<Longrightarrow> no_release w1 w2 \<Longrightarrow> no_release w w2"
  by (auto simp: no_release_def destroyed_instances_append)

lemma no_release_TF_CODING_ERROR [simp]: "no_release w (TF_CODING_ERROR d w)"
  by (simp add: no_release_def)

lemma no_release_issue:
  "destroyed_instances [c] = [] \<Longrightarrow> no_release w (issue c w)"
  by (simp add: no_release_def)

lemma no_release_create:
  "destroyed_instances [c] = [] \<Longrightarrow> no_release w (snd (create c w))"
  by (simp add: create_def no_release_issue)

lemma makeTexture_no_release:
  assumes "makeTexture hio images v swizzle colorSpace dst debug_name w = Some (maybe_texture, w1)"
  shows "no_release w w1"
proof (cases v)
  case (VtSdfAssetPath path)
  with assms show ?thesis
    by (auto simp: makeTexture_def bind_eq_Some_conv Let_def create_def no_release_issue
          split: option.splits)
next
  case (VtGfVec3f vec)
  with assms show ?thesis
    by (cases vec) (auto simp: makeTexture_def create_def no_release_issue split: if_splits)
next
  case (VtFloat val)
  with assms show ?thesis
    by (auto simp: makeTexture_def create_def no_release_issue)
qed (use assms in \<open>auto simp: makeTexture_def\<close>)

lemma SetTextureBasedOnValueAndName_no_release:
  assumes "SetTextureBasedOnValueAndName hio images handle name v swizzle colorSpace debug_name w
             = Some (ok, w1)"
  shows "no_release w w1"
proof (cases "name = ''ior''")
  case True
  with assms have "w1 = issue (SetMaterialIOR handle (Get_float v)) w"
    by (simp add: SetTextureBasedOnValueAndName_def)
  then show ?thesis by (simp add: no_release_issue)
next
  case ior: False
  show ?thesis
  proof (cases "name = ''useSpecularWorkflow''")
    case True
    with assms ior have "w1 = w"
      by (simp add: SetTextureBasedOnValueAndName_def)
    then show ?thesis by simp
  next
    case False
    with assms ior obtain mt w0 where
      mk: "makeTexture hio images v swizzle colorSpace name (debug_name @ '' '' @ name) w = Some (mt, w0)"
      and rest: "(case mt of
             None \<Rightarrow> Some (False, TF_CODING_ERROR (CouldNotParseTexture (debug_name @ '' '' @ name)) w0)
           | Some texture \<Rightarrow>
               Some (True,
                 if name = ''diffuseColor'' then issue (SetMaterialColor handle texture) w0
                 else if name = ''emissiveColor'' then issue (SetMaterialEmissive handle texture) w0
                 else if name = ''normal'' then issue (SetMaterialNormal handle texture) w0
                 else if name = ''roughness'' then issue (SetMaterialRoughness handle texture) w0
                 else if name = ''metallic'' then issue (SetMaterialMetalness handle texture) w0
                 else w0)) = Some (ok, w1)"
      by (auto simp: SetTextureBasedOnValueAndName_def bind_eq_Some_conv)
    have "no_release w0 w1"
    proof (cases mt)
      case None
      with rest show ?thesis by auto
    next
      case (Some texture)
      with rest have "w1 = issue (SetMaterialColor handle texture) w0
        \<or> w1 = issue (SetMaterialEmissive handle texture) w0
        \<or> w1 = issue (SetMaterialNormal handle texture) w0
        \<or> w1 = issue (SetMaterialRoughness handle texture) w0
        \<or> w1 = issue (SetMaterialMetalness handle texture) w0
        \<or> w1 = w0"
        by (simp split: if_splits)
      then show ?thesis by (auto simp: no_release_issue)
    qed
    from no_release_trans [OF makeTexture_no_release [OF mk] this] show ?thesis .
  qed
qed

lemma syncInput_no_release:
  assumes "syncInput host network node sdrNode handle inputName w = Some w1"
  shows "no_release w w1"
  using assms
  by (auto simp: syncInput_def bind_eq_Some_conv
        split: option.splits if_splits list.splits
        dest: SetTextureBasedOnValueAndName_no_release)

lemma syncInputs_no_release:
  assumes "syncInputs host network node sdrNode handle names w = Some w1"
  shows "no_release w w1"
  using assms
proof (induction names arbitrary: w)
  case Nil
  then show ?case by simp
next
  case (Cons n names)
  then obtain w0 where a: "syncInput host network node sdrNode handle n w = Some w0"
    and b: "syncInputs host network node sdrNode handle names w0 = Some w1"
    by (auto split: option.splits)
  from no_release_trans [OF syncInput_no_release [OF a] Cons.IH [OF b]] show ?case .
qed

lemma report_leftover_no_release [simp]: "no_release w (report_leftover bits w)"
  by (simp add: report_leftover_def)

lemma Material_Sync_no_release:
  assumes "Material_Sync host handle dirtyBits w = Some (bits1, w1)"
  shows "no_release w w1"
proof -
  consider (quiet) d where "w1 = TF_CODING_ERROR d w" | (clean) "w1 = report_leftover dirtyBits w"
    | (inputs) network node sdrNode names w0 where
        "syncInputs host network node sdrNode handle names w = Some w0"
        "w1 = report_leftover (dirtyBits - {DirtyParams}) w0"
    using assms
    by (auto simp: Material_Sync_def bind_eq_Some_conv split: if_splits option.splits)
  then show ?thesis
  proof cases
    case inputs
    from no_release_trans [OF syncInputs_no_release [OF inputs(1)]] inputs(2)
    show ?thesis by simp
  qed simp_all
qed

lemma Material_Sync_all_no_release:
  assumes "Material_Sync_all handle steps w = Some w1"
  shows "no_release w w1"
  using assms
proof (induction steps arbitrary: w)
  case Nil
  then show ?case by simp
next
  case (Cons step steps)
  obtain host bits where "step = (host, bits)" by (cases step)
  with Cons.prems obtain b0 w0 where a: "Material_Sync host handle bits w = Some (b0, w0)"
    and b: "Material_Sync_all handle steps w0 = Some w1"
    by (auto split: option.splits)
  from no_release_trans [OF Material_Sync_no_release [OF a] Cons.IH [OF b]] show ?case .
qed

text \<open>
  C9. Over any sequence of syncs of a mesh record that returns, every handle passed to
  \<open>DestroyInstance\<close> is an instance handle: one the record held in \<open>_instances\<close> at the
  start, or one the renderer returned for a \<open>CreateInstance\<close> call of the sequence.
  Over any sequence of syncs of a material that returns, no call that destroys anything
  is issued. The renderer calls have no other release, so the mesh handle that
  \<open>_mesh\<close> loses and the texture a material slot loses are never released.
\<close>

theorem only_instance_handles_destroyed:
  "(Sync_all renderParam steps r w = Some (r', w') \<longrightarrow>
      (\<exists>new. calls w' = calls w @ new
         \<and> set (destroyed_instances new)
             \<subseteq> set (instances r) \<union> created_instances (handle_of w) (calls w) new))
   \<and> (Material_Sync_all handle material_steps v = Some v' \<longrightarrow>
      (\<exists>new. calls v' = calls v @ new \<and> destroyed_instances new = []))"
proof (intro conjI impI)
  assume "Sync_all renderParam steps r w = Some (r', w')"
  from Sync_all_steps [OF this] show "\<exists>new. calls w' = calls w @ new
         \<and> set (destroyed_instances new)
             \<subseteq> set (instances r) \<union> created_instances (handle_of w) (calls w) new"
    by blast
next
  assume "Material_Sync_all handle material_steps v = Some v'"
  from Material_Sync_all_no_release [OF this]
  show "\<exists>new. calls v' = calls v @ new \<and> destroyed_instances new = []"
    by (simp add: no_release_def)
qed

theorem only_instance_handles_destroyed_witness:
  "\<not> Option.is_none (Sync_all example_renderParam example_steps example_mesh example_world)
   \<and> (\<exists>new. calls (snd (the (Sync_all example_renderParam example_steps example_mesh example_world)))
              = calls example_world @ new
         \<and> set (destroyed_instances new)
             \<subseteq> set (instances example_mesh)
                 \<union> created_instances (handle_of example_world) (calls example_world) new)
   \<and> map_option (\<lambda>(r, w). destroyed_instances (calls w))
         (Sync_all example_renderParam example_steps example_mesh example_world) = Some [2]
   \<and> \<not> Option.is_none (Material_Sync_all 9 [(example_surface, {DirtyParams})] example_world)
   \<and> (\<exists>new. calls (the (Material_Sync_all 9 [(example_surface, {DirtyParams})] example_world))
              = calls example_world @ new
         \<and> destroyed_instances new = [])"
proof -
  let ?X = "Sync_all example_renderParam example_steps example_mesh example_world"
  let ?Y = "Material_Sync_all 9 [(example_surface, {DirtyParams})] example_world"
  have x: "\<not> Option.is_none ?X" by code_simp
  have d: "map_option (\<lambda>(r, w). destroyed_instances (calls w)) ?X = Some [2]" by code_simp
  have y: "\<not> Option.is_none ?Y" by code_simp
  from x have X: "?X = Some (fst (the ?X), snd (the ?X))" by (cases ?X) auto
  from y have Y: "?Y = Some (the ?Y)" by (cases ?Y) auto
  from only_instance_handles_destroyed
    [of example_renderParam example_steps example_mesh example_world "fst (the ?X)" "snd (the ?X)"
        9 "[(example_surface, {DirtyParams})]" example_world "the ?Y"] X Y
  have "(\<exists>new. calls (snd (the ?X)) = calls example_world @ new
         \<and> set (destroyed_instances new)
             \<subseteq> set (instances example_mesh)
                 \<union> created_instances (handle_of example_world) (calls example_world) new)"
    and "(\<exists>new. calls (the ?Y) = calls example_world @ new \<and> destroyed_instances new = [])"
    by blast+
  with x y d show ?thesis by blast
qed

end
